theory Spec2Isabelle
  imports Complex_Main "HOL-Library.Sublist"
begin

section \<open>Python values, exceptions and strings\<close>

text \<open>
  The scraper is Python. Its strings are modelled as \<open>string\<close> (byte lists; a character
  outside ASCII is its UTF-8 bytes), Python's \<open>None\<close> as \<open>None\<close> of an option type, and
  every exception the modelled code can raise as a value of \<open>exn\<close>. \<open>RequestError\<close> stands
  for whatever the HTTP library raises, \<open>OSError\<close> for what a file or the row writer
  raises.
\<close>

datatype exn = AttributeError | IndexError | TypeError | ValueError | UnboundLocalError
  | OSError | RequestError string

text \<open>The characters \<open>\s\<close> matches and \<open>str.strip\<close> removes (the ASCII ones).\<close>

definition is_space :: "char \<Rightarrow> bool" where
  "is_space c \<longleftrightarrow> c \<in> set [CHR '' '', CHR 0x09, CHR 0x0A, CHR 0x0B, CHR 0x0C, CHR 0x0D]"

definition is_digit :: "char \<Rightarrow> bool" where
  "is_digit c \<longleftrightarrow> c \<in> set ''0123456789''"

definition strip :: "string \<Rightarrow> string" where
  "strip s = rev (dropWhile is_space (rev (dropWhile is_space s)))"

text \<open>\<open>re.sub("\s", " ", s)\<close>: every whitespace character becomes one space.\<close>

definition sub_space :: "string \<Rightarrow> string" where
  "sub_space s = map (\<lambda>c. if is_space c then CHR '' '' else c) s"

text \<open>\<open>re.sub("\s+", " ", s)\<close>: every maximal run of whitespace becomes one space.\<close>

fun sub_spaces :: "string \<Rightarrow> string" where
  "sub_spaces [] = []"
| "sub_spaces [c] = [if is_space c then CHR '' '' else c]"
| "sub_spaces (c # d # cs) =
     (if is_space c \<and> is_space d then sub_spaces (d # cs)
      else (if is_space c then CHR '' '' else c) # sub_spaces (d # cs))"

text \<open>\<open>re.sub("'|\"", "", s)\<close> deletes the quotes, \<open>re.sub("['\"]", " ", s)\<close> blanks them.\<close>

definition is_quote :: "char \<Rightarrow> bool" where
  "is_quote c \<longleftrightarrow> c = CHR 0x27 \<or> c = CHR 0x22"

definition del_quotes :: "string \<Rightarrow> string" where
  "del_quotes s = filter (\<lambda>c. \<not> is_quote c) s"

definition blank_quotes :: "string \<Rightarrow> string" where
  "blank_quotes s = map (\<lambda>c. if is_quote c then CHR '' '' else c) s"

text \<open>\<open>re.sub(",", ".", s)\<close> and \<open>s.replace(",", ".")\<close>.\<close>

definition comma_to_period :: "string \<Rightarrow> string" where
  "comma_to_period s = map (\<lambda>c. if c = CHR '','' then CHR ''.'' else c) s"

text \<open>\<open>" ".join(xs)\<close>.\<close>

fun join_space :: "string list \<Rightarrow> string" where
  "join_space [] = []"
| "join_space [x] = x"
| "join_space (x # y # ys) = x @ '' '' @ join_space (y # ys)"

text \<open>Splitting at whitespace, as the parser does with the value of a \<open>class\<close> attribute.\<close>

fun split_space :: "string \<Rightarrow> string \<Rightarrow> string list" where
  "split_space [] cur = (if cur = [] then [] else [cur])"
| "split_space (c # cs) cur =
     (if is_space c then (if cur = [] then split_space cs [] else cur # split_space cs [])
      else split_space cs (cur @ [c]))"

text \<open>\<open>text.find(sub)\<close>: the lowest index at which \<open>sub\<close> occurs, \<open>-1\<close> when it does not.\<close>

fun find_at :: "string \<Rightarrow> string \<Rightarrow> nat \<Rightarrow> int" where
  "find_at sub [] k = (if sub = [] then int k else - 1)"
| "find_at sub (c # cs) k = (if prefix sub (c # cs) then int k else find_at sub cs (Suc k))"

definition str_find :: "string \<Rightarrow> string \<Rightarrow> int" where
  "str_find s sub = find_at sub s 0"

text \<open>
  \<open>re.search(pat, text, flags=re.REVERSE)\<close> for a literal pattern scans from the end of
  the text, so it finds the last occurrence; the function gives the end of that match
  (\<open>m.span()[1]\<close>), or \<open>None\<close> when the search returns \<open>None\<close>.
\<close>

fun search_reverse_end :: "string \<Rightarrow> string \<Rightarrow> nat \<Rightarrow> nat option" where
  "search_reverse_end pat [] k = (if pat = [] then Some k else None)"
| "search_reverse_end pat (c # cs) k =
     (case search_reverse_end pat cs (Suc k) of
        Some e \<Rightarrow> Some e
      | None \<Rightarrow> if prefix pat (c # cs) then Some (k + length pat) else None)"

text \<open>The slice \<open>xs[a:b]\<close>: a negative bound counts from the end, both are clamped.\<close>

definition py_slice :: "'a list \<Rightarrow> int \<Rightarrow> int \<Rightarrow> 'a list" where
  "py_slice xs a b =
     (let n = int (length xs);
          lo = (if a < 0 then max (a + n) 0 else min a n);
          hi = (if b < 0 then max (b + n) 0 else min b n)
      in take (nat (hi - lo)) (drop (nat lo) xs))"

section \<open>The response fetcher: trimming the body\<close>

text \<open>
  \<open>_cut_response\<close>. When the reverse search finds no \<open></div>\<close>, \<open>m\<close> is \<open>None\<close> and
  \<open>m.span()\<close> raises \<open>AttributeError\<close>. The result of \<open>find\<close> is used as it is.
\<close>

definition cut_response :: "string \<Rightarrow> exn + string" where
  "cut_response s =
     (let idx_first_div = str_find s ''<div '' in
      case search_reverse_end ''</div>'' s 0 of
        None \<Rightarrow> Inl AttributeError
      | Some idx_last_div \<Rightarrow>
          Inr (''<html><body>'' @ py_slice s idx_first_div (int idx_last_div)
               @ ''</body></html>''))"

text \<open>
  The words of the specification: the first and the last place where a pattern occurs.
\<close>

definition first_occurrence :: "string \<Rightarrow> string \<Rightarrow> nat \<Rightarrow> bool" where
  "first_occurrence pat s i \<longleftrightarrow>
     prefix pat (drop i s) \<and> (\<forall>k<i. \<not> prefix pat (drop k s))"

definition last_occurrence :: "string \<Rightarrow> string \<Rightarrow> nat \<Rightarrow> bool" where
  "last_occurrence pat s j \<longleftrightarrow>
     prefix pat (drop j s) \<and> (\<forall>k>j. \<not> prefix pat (drop k s))"

definition occurs :: "string \<Rightarrow> string \<Rightarrow> bool" where
  "occurs pat s \<longleftrightarrow> (\<exists>k. prefix pat (drop k s))"

section \<open>Regular expressions of the field extractors\<close>

text \<open>
  \<open>re.findall\<close> scans the text from the left; after a match it goes on behind the match.
  \<open>matcher\<close> gives the length of the match that starts at the head of its argument, and
  \<open>skip\<close> counts the characters the last match still covers. None of the patterns
  below matches the empty string.
\<close>

fun findall :: "(string \<Rightarrow> nat option) \<Rightarrow> nat \<Rightarrow> string \<Rightarrow> string list" where
  "findall matcher skip [] = []"
| "findall matcher skip (c # cs) =
     (if 0 < skip then findall matcher (skip - 1) cs
      else case matcher (c # cs) of
             Some n \<Rightarrow> take n (c # cs) # findall matcher (n - 1) cs
           | None \<Rightarrow> findall matcher 0 cs)"

text \<open>
  \<open>[0-9]+[.][0-9]*\<close>: the digits are taken greedily; giving some of them back cannot
  help, since a digit and not a period would follow.
\<close>

definition match_decimal :: "string \<Rightarrow> nat option" where
  "match_decimal s =
     (let ds = takeWhile is_digit s in
      if ds = [] then None
      else case dropWhile is_digit s of
             [] \<Rightarrow> None
           | c # r \<Rightarrow> if c = CHR ''.''
                      then Some (length ds + 1 + length (takeWhile is_digit r))
                      else None)"

text \<open>
  \<open>[Uuma0-9.,]+(?= comentario| review)\<close> and \<open>[Uuma0-9.,]+(?= foto| photo)\<close> (the first
  with an acute accent on the \<open>a\<close>): a greedy run of the class, then one of the unit words
  must follow. Both words start with a space, which is not in the class, so only the
  whole run can match.
\<close>

definition in_count_class :: "char \<Rightarrow> bool" where
  "in_count_class c \<longleftrightarrow> c \<in> set ''Uuma0123456789.,''"

definition match_count :: "string list \<Rightarrow> string \<Rightarrow> nat option" where
  "match_count units s =
     (let run = takeWhile in_count_class s; r = dropWhile in_count_class s in
      if run \<noteq> [] \<and> list_ex (\<lambda>u. prefix u r) units then Some (length run) else None)"

definition review_units :: "string list" where
  "review_units = ['' coment'' @ [CHR 0xC3, CHR 0xA1] @ ''rio'', '' review'']"

definition photo_units :: "string list" where
  "photo_units = ['' foto'', '' photo'']"

text \<open>
  The first match of \<open>(?<=postId=).*?(?=&)\<close>: behind a \<open>postId=\<close>, the shortest
  text without a newline that an ampersand follows. \<open>None\<close> when \<open>findall\<close> gives the
  empty list, on which the index \<open>[0]\<close> raises.
\<close>

fun first_post_id :: "string \<Rightarrow> string option" where
  "first_post_id [] = None"
| "first_post_id (c # cs) =
     (if prefix ''postId='' (c # cs)
      then (let r = drop 7 (c # cs);
                stop = (\<lambda>x. x = CHR ''&'' \<or> x = CHR 0x0A)
            in case dropWhile (\<lambda>x. \<not> stop x) r of
                 [] \<Rightarrow> first_post_id cs
               | d # _ \<Rightarrow> if d = CHR ''&'' then Some (takeWhile (\<lambda>x. \<not> stop x) r)
                          else first_post_id cs)
      else first_post_id cs)"

text \<open>
  \<open>int(s)\<close> and \<open>float(s)\<close> on decimal text: blanks around it, a sign, digits (for
  \<open>int\<close> with single underscores between them), for \<open>float\<close> a period. \<open>float\<close> is given
  the exact value of the decimal, which Python rounds to the nearest double; exponents,
  \<open>inf\<close> and \<open>nan\<close> are left out, the extractors feed \<open>float\<close> matches of the pattern
  above.
\<close>

definition digit_val :: "char \<Rightarrow> int" where
  "digit_val c = int (length (takeWhile (\<lambda>d. d \<noteq> c) ''0123456789''))"

definition digits_val :: "string \<Rightarrow> int" where
  "digits_val s = foldl (\<lambda>a c. 10 * a + digit_val c) 0 s"

fun digits_ok :: "string \<Rightarrow> bool" where
  "digits_ok [] = False"
| "digits_ok [c] = is_digit c"
| "digits_ok (c # d # cs) =
     (is_digit c \<and> (if d = CHR ''_'' then digits_ok cs else digits_ok (d # cs)))"

definition split_sign :: "string \<Rightarrow> int \<times> string" where
  "split_sign s =
     (case s of
        [] \<Rightarrow> (1, [])
      | c # r \<Rightarrow> if c = CHR ''-'' then (- 1, r) else if c = CHR ''+'' then (1, r) else (1, s))"

definition py_int :: "string \<Rightarrow> exn + int" where
  "py_int s =
     (let (sgn, body) = split_sign (strip s) in
      if digits_ok body then Inr (sgn * digits_val (filter (\<lambda>c. c \<noteq> CHR ''_'') body))
      else Inl ValueError)"

definition py_float :: "string \<Rightarrow> exn + rat" where
  "py_float s =
     (let (sgn, body) = split_sign (strip s);
          ip = takeWhile is_digit body
      in case dropWhile is_digit body of
           [] \<Rightarrow> if ip = [] then Inl ValueError else Inr (of_int (sgn * digits_val ip))
         | c # fp \<Rightarrow>
             if c = CHR ''.'' \<and> list_all is_digit fp \<and> ip @ fp \<noteq> []
             then Inr (of_int (sgn * digits_val (ip @ fp)) / 10 ^ length fp)
             else Inl ValueError)"

section \<open>The parsed document\<close>

text \<open>
  What the extractors see of a parsed page: an element with its name, its attributes
  (the text of each value) and its children, or a piece of text.
\<close>

datatype node = Tag string "(string \<times> string) list" "node list" | NavigableString string

fun descendants :: "node \<Rightarrow> node list"
  and descendants_list :: "node list \<Rightarrow> node list" where
  "descendants (Tag nm as cs) = descendants_list cs"
| "descendants (NavigableString s) = []"
| "descendants_list [] = []"
| "descendants_list (c # cs) = c # descendants c @ descendants_list cs"

fun tag_contents :: "node \<Rightarrow> node list" where
  "tag_contents (Tag nm as cs) = cs"
| "tag_contents (NavigableString s) = []"

fun get_attr :: "node \<Rightarrow> string \<Rightarrow> string option" where
  "get_attr (Tag nm as cs) k = map_of as k"
| "get_attr (NavigableString s) k = None"

fun is_tag :: "node \<Rightarrow> bool" where
  "is_tag (Tag nm as cs) = True"
| "is_tag (NavigableString s) = False"

definition has_attr :: "node \<Rightarrow> string \<Rightarrow> bool" where
  "has_attr n k \<longleftrightarrow> get_attr n k \<noteq> None"

fun strings_of :: "node list \<Rightarrow> string list" where
  "strings_of [] = []"
| "strings_of (NavigableString s # ns) = s # strings_of ns"
| "strings_of (Tag nm as cs # ns) = strings_of ns"

text \<open>\<open>.text\<close> joins every piece of text below the element, as it is.\<close>

definition get_text :: "node \<Rightarrow> string" where
  "get_text n = concat (strings_of (descendants n))"

text \<open>
  \<open>.stripped_strings\<close> yields every piece of text below the element, at any depth,
  stripped, and leaves out the pieces that are empty then.
\<close>

definition stripped_strings :: "node \<Rightarrow> string list" where
  "stripped_strings n = filter (\<lambda>s. s \<noteq> []) (map strip (strings_of (descendants n)))"

text \<open>
  \<open>find(True, class_=cls)\<close>: the first element below the node, in document order, one of
  whose classes is \<open>cls\<close>, or whose classes joined by spaces are \<open>cls\<close>.
  \<open>find(True, {k: True})\<close> asks for an element that has the attribute \<open>k\<close>,
  \<open>find(True, k=v)\<close> for one whose attribute \<open>k\<close> is \<open>v\<close>.
\<close>

definition class_matches :: "string \<Rightarrow> node \<Rightarrow> bool" where
  "class_matches cls n =
     (case get_attr n ''class'' of
        None \<Rightarrow> False
      | Some v \<Rightarrow> (let toks = split_space v [] in cls \<in> set toks \<or> join_space toks = cls))"

definition find_class :: "node \<Rightarrow> string \<Rightarrow> node option" where
  "find_class n cls = List.find (class_matches cls) (descendants n)"

definition find_has_attr :: "node \<Rightarrow> string \<Rightarrow> node option" where
  "find_has_attr n k = List.find (\<lambda>d. has_attr d k) (descendants n)"

definition find_attr :: "node \<Rightarrow> string \<Rightarrow> string \<Rightarrow> node option" where
  "find_attr n k v = List.find (\<lambda>d. get_attr d k = Some v) (descendants n)"

section \<open>The field extractors\<close>

text \<open>
  \<open>_parse_review_text\<close>. The loop pairs the i-th child of the block with the i-th
  stripped string of the block and stops at the shorter of the two.
\<close>

fun text_loop :: "(node \<times> string) list \<Rightarrow> string \<Rightarrow> string" where
  "text_loop [] acc = acc"
| "text_loop ((e, s) # rest) acc =
     (if is_tag e \<and> has_attr e ''class'' then acc else text_loop rest (acc @ s @ '' ''))"

definition parse_review_text :: "node \<Rightarrow> string" where
  "parse_review_text text_block =
     strip (del_quotes (sub_space
       (text_loop (zip (tag_contents text_block) (stripped_strings text_block)) [])))"

section \<open>Review records and the store\<close>

text \<open>
  A review record is a Python dict; its keys are the fields below (\<open>review_text\<close> is the
  key \<open>text\<close>). The value under \<open>errors\<close> is a list object that \<open>append\<close> changes in
  place, so the record holds the address of the list and the lists live in a store.
  \<open>examples\<close> are the files the error handler has written: the field name and the node.
\<close>

type_synonym addr = nat

record review_result =
  token :: "string option"
  review_id :: "string option"
  retrieval_date :: "string option"
  rating :: "rat option"
  rating_max :: "rat option"
  relative_date :: "string option"
  likes :: "int option"
  other_ratings :: "string option"
  trip_type_travel_group :: "string option"
  user_name :: "string option"
  user_is_local_guide :: "bool option"
  user_reviews :: "string option"
  user_photos :: "string option"
  user_url :: "string option"
  review_text :: "string option"
  response_text :: "string option"
  response_relative_date :: "string option"
  errors :: addr

record memory =
  heap :: "addr \<Rightarrow> string list"
  examples :: "(string \<times> node option) list"

text \<open>
  What the scraper is given from outside. \<open>n_retries\<close> is the attribute of the scraper
  object. \<open>format_exc\<close> is the text of the traceback of an exception and \<open>clock\<close> the
  text of the time at the k-th parsed review. \<open>http_get k token\<close> is the decoded body
  of the k-th request, sent with that token, or what the request raised. \<open>parse_page\<close>
  is the rest of \<open>_get_api_response\<close>: the two parsers and the lookups of the count
  node and the review nodes, giving the review nodes (\<open>None\<close> where \<open>find\<close> found no
  node), the review count and the next token, or the exception raised.
  \<open>write_example k nm review\<close> is what opening and writing the file of the error
  handler raises, if anything, when \<open>k\<close> files were written before; \<open>write_row k result\<close>
  is what \<open>writer.writerow\<close> and \<open>file.flush\<close> raise, if anything, when \<open>k\<close> rows were
  written before.
  \<open>review_default_result\<close> is the dict of that name in \<open>src.config\<close>, a module that is
  not among the sources; its \<open>errors\<close> is the address of its list.
\<close>

record env =
  n_retries :: int
  format_exc :: "exn \<Rightarrow> string"
  clock :: "nat \<Rightarrow> string"
  http_get :: "nat \<Rightarrow> string \<Rightarrow> exn + string"
  parse_page :: "string \<Rightarrow> exn + (node option list \<times> int \<times> string)"
  write_example :: "nat \<Rightarrow> string \<Rightarrow> node option \<Rightarrow> exn option"
  write_row :: "nat \<Rightarrow> review_result \<Rightarrow> exn option"
  review_default_result :: review_result

text \<open>
  Modelled from the spec: the value of \<open>review_default_result\<close> in \<open>src.config\<close>, which is
  not among the sources. Every field is missing, \<open>user_is_local_guide\<close> is false and
  \<open>errors\<close> is a list, here the one at address \<open>a\<close>.
\<close>

definition missing_result :: "addr \<Rightarrow> review_result" where
  "missing_result a =
     \<lparr>token = None, review_id = None, retrieval_date = None, rating = None,
      rating_max = None, relative_date = None, likes = None, other_ratings = None,
      trip_type_travel_group = None, user_name = None, user_is_local_guide = Some False,
      user_reviews = None, user_photos = None, user_url = None, review_text = None,
      response_text = None, response_relative_date = None, errors = a\<rparr>"

text \<open>
  An extractor is the body of one \<open>try\<close> block of \<open>_parse_review\<close>: given the review node
  (\<open>None\<close> when the page lookup found none) it yields the assignments to the record it
  got to make and the exception it then raised, if any. A method called on \<open>None\<close> raises
  \<open>AttributeError\<close>, \<open>re.sub\<close> and \<open>re.findall\<close> on \<open>None\<close> raise \<open>TypeError\<close>, an index
  beyond a list raises \<open>IndexError\<close>.
\<close>

type_synonym extractor = "node option \<Rightarrow> (review_result \<Rightarrow> review_result) \<times> exn option"

definition extract_text :: extractor where
  "extract_text review =
     (case review of
        None \<Rightarrow> (id, Some AttributeError)
      | Some r \<Rightarrow>
          (case find_class r ''review-full-text'' of
             Some text_block \<Rightarrow>
               (\<lambda>res. res\<lparr>review_text := Some (parse_review_text text_block)\<rparr>, None)
           | None \<Rightarrow>
               (case find_has_attr r ''data-expandable-section'' of
                  Some text_block \<Rightarrow>
                    (\<lambda>res. res\<lparr>review_text := Some (parse_review_text text_block)\<rparr>, None)
                | None \<Rightarrow> (id, None))))"

text \<open>
  The rating block, from the label on: \<open>re.sub\<close>, \<open>re.findall\<close>, then the two
  assignments, each after its \<open>float\<close>.
\<close>

definition rating_of_label :: "string \<Rightarrow> (review_result \<Rightarrow> review_result) \<times> exn option" where
  "rating_of_label rating_text =
     (case findall match_decimal 0 (comma_to_period rating_text) of
        [] \<Rightarrow> (id, Some IndexError)
      | r0 # rest \<Rightarrow>
          (case py_float r0 of
             Inl e \<Rightarrow> (id, Some e)
           | Inr v0 \<Rightarrow>
               (case rest of
                  [] \<Rightarrow> (\<lambda>res. res\<lparr>rating := Some v0\<rparr>, Some IndexError)
                | r1 # _ \<Rightarrow>
                    (case py_float r1 of
                       Inl e \<Rightarrow> (\<lambda>res. res\<lparr>rating := Some v0\<rparr>, Some e)
                     | Inr v1 \<Rightarrow>
                         (\<lambda>res. res\<lparr>rating := Some v0, rating_max := Some v1\<rparr>, None)))))"

definition extract_rating :: extractor where
  "extract_rating review =
     (case review of
        None \<Rightarrow> (id, Some AttributeError)
      | Some r \<Rightarrow>
          (case find_class r ''Fam1ne EBe2gf'' of
             None \<Rightarrow> (id, Some AttributeError)
           | Some n \<Rightarrow>
               (case get_attr n ''aria-label'' of
                  None \<Rightarrow> (id, Some TypeError)
                | Some rating_text \<Rightarrow> rating_of_label rating_text)))"

definition extract_other_ratings :: extractor where
  "extract_other_ratings review =
     (case review of
        None \<Rightarrow> (id, Some AttributeError)
      | Some r \<Rightarrow>
          (case find_class r ''k8MTF'' of
             None \<Rightarrow> (id, None)
           | Some other_ratings_node \<Rightarrow>
               (\<lambda>res. res\<lparr>other_ratings :=
                   Some (sub_spaces (join_space (stripped_strings other_ratings_node)))\<rparr>,
                None)))"

definition extract_relative_date :: extractor where
  "extract_relative_date review =
     (case review of
        None \<Rightarrow> (id, Some AttributeError)
      | Some r \<Rightarrow>
          (case find_class r ''dehysf lTi8oc'' of
             None \<Rightarrow> (id, Some AttributeError)
           | Some n \<Rightarrow> (\<lambda>res. res\<lparr>relative_date := Some (get_text n)\<rparr>, None)))"

definition extract_user_name :: extractor where
  "extract_user_name review =
     (case review of
        None \<Rightarrow> (id, Some AttributeError)
      | Some r \<Rightarrow>
          (case find_class r ''TSUbDb'' of
             None \<Rightarrow> (id, Some AttributeError)
           | Some n \<Rightarrow> (\<lambda>res. res\<lparr>user_name := Some (get_text n)\<rparr>, None)))"

definition extract_user_data :: extractor where
  "extract_user_data review =
     (case review of
        None \<Rightarrow> (id, Some AttributeError)
      | Some r \<Rightarrow>
          (case find_class r ''Msppse'' of
             None \<Rightarrow> (id, None)
           | Some user_node \<Rightarrow>
               (let user_reviews_found = findall (match_count review_units) 0 (get_text user_node);
                    user_photos_found = findall (match_count photo_units) 0 (get_text user_node)
                in (\<lambda>res.
                      (let res1 = res\<lparr>user_url := get_attr user_node ''href'',
                                       user_is_local_guide :=
                                         Some (find_class user_node ''QV3IV'' \<noteq> None)\<rparr>;
                           res2 = (case user_reviews_found of
                                     [] \<Rightarrow> res1
                                   | x # _ \<Rightarrow> res1\<lparr>user_reviews := Some x\<rparr>)
                       in case user_photos_found of
                            [] \<Rightarrow> res2
                          | x # _ \<Rightarrow> res2\<lparr>user_photos := Some x\<rparr>),
                    None))))"

definition extract_review_id :: extractor where
  "extract_review_id review =
     (case review of
        None \<Rightarrow> (id, Some AttributeError)
      | Some r \<Rightarrow>
          (case find_class r ''RvU3D'' of
             None \<Rightarrow> (id, Some AttributeError)
           | Some n \<Rightarrow>
               (case get_attr n ''href'' of
                  None \<Rightarrow> (id, Some TypeError)
                | Some href \<Rightarrow>
                    (case first_post_id href of
                       None \<Rightarrow> (id, Some IndexError)
                     | Some v \<Rightarrow> (\<lambda>res. res\<lparr>review_id := Some v\<rparr>, None)))))"

definition extract_likes :: extractor where
  "extract_likes review =
     (case review of
        None \<Rightarrow> (id, Some AttributeError)
      | Some r \<Rightarrow>
          (case find_attr r ''jsname'' ''CMh1ye'' of
             None \<Rightarrow> (id, None)
           | Some review_likes \<Rightarrow>
               (case py_int (get_text review_likes) of
                  Inl e \<Rightarrow> (id, Some e)
                | Inr v \<Rightarrow> (\<lambda>res. res\<lparr>likes := Some v\<rparr>, None))))"

definition extract_response :: extractor where
  "extract_response review =
     (case review of
        None \<Rightarrow> (id, Some AttributeError)
      | Some r \<Rightarrow>
          (\<lambda>res.
             (let res1 = (case find_class r ''d6SCIc'' of
                            None \<Rightarrow> res
                          | Some response \<Rightarrow>
                              res\<lparr>response_text := Some (parse_review_text response)\<rparr>)
              in case find_class r ''pi8uOe'' of
                   None \<Rightarrow> res1
                 | Some response_date \<Rightarrow>
                     res1\<lparr>response_relative_date := Some (get_text response_date)\<rparr>),
           None))"

definition extract_trip_type_travel_group :: extractor where
  "extract_trip_type_travel_group review =
     (case review of
        None \<Rightarrow> (id, Some AttributeError)
      | Some r \<Rightarrow>
          (case find_class r ''PV7e7'' of
             None \<Rightarrow> (id, None)
           | Some n \<Rightarrow>
               (\<lambda>res. res\<lparr>trip_type_travel_group :=
                   Some (sub_spaces (join_space (stripped_strings n)))\<rparr>,
                None)))"

text \<open>
  The \<open>overall_rating\<close> block of \<open>_parse_place\<close>: the text of the node, its commas
  replaced, given to \<open>float\<close>; the value assigned or the exception raised.
\<close>

definition overall_rating_of_text :: "string \<Rightarrow> exn + rat" where
  "overall_rating_of_text t = py_float (comma_to_period t)"

definition extract_overall_rating :: "node \<Rightarrow> exn + rat" where
  "extract_overall_rating response =
     (case find_class response ''Aq14fc'' of
        None \<Rightarrow> Inl AttributeError
      | Some n \<Rightarrow> overall_rating_of_text (get_text n))"

text \<open>The \<open>try\<close> blocks of \<open>_parse_review\<close>, in its order, with the names it reports.\<close>

definition extractors :: "(string \<times> extractor) list" where
  "extractors =
     [(''text'', extract_text),
      (''rating'', extract_rating),
      (''other_ratings'', extract_other_ratings),
      (''relative_date'', extract_relative_date),
      (''user_name'', extract_user_name),
      (''user_data'', extract_user_data),
      (''review_id'', extract_review_id),
      (''likes'', extract_likes),
      (''response'', extract_response),
      (''trip_type_travel_group'', extract_trip_type_travel_group)]"

text \<open>
  \<open>_handle_review_exception\<close>: the description is appended to the list that the record's
  \<open>errors\<close> refers to, then the node is written to a file. Nothing guards the \<open>open\<close> and
  the write: what they raise leaves the handler, after the description was appended.
  The result is that exception, if any, and the store.
\<close>

definition describe :: "env \<Rightarrow> string \<Rightarrow> exn \<Rightarrow> string" where
  "describe env nm e = blank_quotes (''review '' @ nm @ '':'' @ sub_space (format_exc env e))"

definition handle_review_exception ::
  "env \<Rightarrow> exn \<Rightarrow> review_result \<Rightarrow> node option \<Rightarrow> string \<Rightarrow> memory
     \<Rightarrow> exn option \<times> memory" where
  "handle_review_exception env e result review nm m =
     (let m1 = m\<lparr>heap := (heap m)(errors result :=
                      heap m (errors result) @ [describe env nm e])\<rparr>
      in case write_example env (length (examples m)) nm review of
           None \<Rightarrow> (None, m1\<lparr>examples := examples m @ [(nm, review)]\<rparr>)
         | Some e' \<Rightarrow> (Some e', m1))"

text \<open>
  The \<open>try\<close> blocks one after the other, each with its \<open>except\<close> branch. An exception
  of the handler is raised inside the \<open>except\<close> branch, so no block catches it: it
  leaves \<open>_parse_review\<close>.
\<close>

fun run_extractors ::
  "env \<Rightarrow> node option \<Rightarrow> (string \<times> extractor) list \<Rightarrow> review_result \<Rightarrow> memory
     \<Rightarrow> (exn + review_result) \<times> memory" where
  "run_extractors env review [] result m = (Inr result, m)"
| "run_extractors env review ((nm, ex) # rest) result m =
     (case ex review of
        (assign, None) \<Rightarrow> run_extractors env review rest (assign result) m
      | (assign, Some e) \<Rightarrow>
          (case handle_review_exception env e (assign result) review nm m of
             (None, m') \<Rightarrow> run_extractors env review rest (assign result) m'
           | (Some e', m') \<Rightarrow> (Inl e', m')))"

text \<open>
  \<open>_parse_review\<close>. \<open>review_default_result.copy()\<close> is a shallow copy: the fields of the
  new dict are those of the default, its \<open>errors\<close> is the same list object. The result
  is the record returned or the exception raised, with the store.
\<close>

definition parse_review ::
  "env \<Rightarrow> string \<Rightarrow> node option \<Rightarrow> memory \<Rightarrow> (exn + review_result) \<times> memory" where
  "parse_review env now review m =
     (case run_extractors env review extractors (review_default_result env) m of
        (Inr result, m') \<Rightarrow> (Inr (result\<lparr>retrieval_date := Some now\<rparr>), m')
      | (Inl e, m') \<Rightarrow> (Inl e, m'))"

section \<open>The pagination loop\<close>

text \<open>
  \<open>_get_api_response\<close>: the request, \<open>_cut_response\<close> on the decoded body, then the
  parsers. An exception of any of the three leaves the call.
\<close>

definition get_api_response ::
  "env \<Rightarrow> nat \<Rightarrow> string \<Rightarrow> exn + (node option list \<times> int \<times> string)" where
  "get_api_response env k tok =
     (case http_get env k tok of
        Inl e \<Rightarrow> Inl e
      | Inr body \<Rightarrow>
          (case cut_response body of
             Inl e \<Rightarrow> Inl e
           | Inr doc \<Rightarrow> parse_page env doc))"

text \<open>
  The local variables of \<open>scrape_reviews\<close> (\<open>v_reviews_soup\<close>, \<open>v_review_count\<close> and \<open>v_i\<close>
  are \<open>None\<close> while the variable is unbound), the tokens of the requests sent so far,
  the rows the writer has written (the record and the text of its error list at that
  moment) and the store. The sleeps and the log lines change nothing that is modelled.
\<close>

record sstate =
  v_token :: string
  v_reviews_soup :: "node option list option"
  v_review_count :: "int option"
  v_results :: "review_result list"
  v_j :: nat
  v_i :: "nat option"
  sent :: "string list"
  rows :: "(review_result \<times> string list) list"
  mem :: memory

text \<open>
  The retry loop \<open>while n > 0\<close>: a response is unpacked into the three variables and the
  loop is left; an exception costs one of the \<open>n\<close> attempts.
\<close>

fun fetch_retry :: "env \<Rightarrow> nat \<Rightarrow> sstate \<Rightarrow> sstate" where
  "fetch_retry env 0 st = st"
| "fetch_retry env (Suc n) st =
     (case get_api_response env (length (sent st)) (v_token st) of
        Inr (reviews, cnt, tok) \<Rightarrow>
          st\<lparr>sent := sent st @ [v_token st], v_reviews_soup := Some reviews,
             v_review_count := Some cnt, v_token := tok\<rparr>
      | Inl e \<Rightarrow> fetch_retry env n (st\<lparr>sent := sent st @ [v_token st]\<rparr>))"

text \<open>
  The loop over the review nodes of \<open>reviews_soup\<close>, inside its \<open>try\<close>: an exception of
  \<open>_parse_review\<close>, of the writer or of the flush is caught and logged by the \<open>except\<close>
  branch behind the loop, so it ends the loop over this page's reviews.
\<close>

fun emit_reviews :: "env \<Rightarrow> node option list \<Rightarrow> sstate \<Rightarrow> sstate" where
  "emit_reviews env [] st = st"
| "emit_reviews env (review # rest) st =
     (case parse_review env (clock env (v_j st)) review (mem st) of
        (Inl e, m) \<Rightarrow> st\<lparr>mem := m\<rparr>
      | (Inr parsed, m) \<Rightarrow>
          (let result = parsed\<lparr>token := Some (v_token st)\<rparr>
           in case write_row env (length (rows st)) result of
                Some e \<Rightarrow> st\<lparr>mem := m\<rparr>
              | None \<Rightarrow>
                  emit_reviews env rest
                    (st\<lparr>mem := m,
                        rows := rows st @ [(result, heap m (errors result))],
                        v_results := v_results st @ [result],
                        v_j := Suc (v_j st)\<rparr>)))"

text \<open>
  The body of the \<open>for\<close> loop. Reading \<open>reviews_soup\<close> while it is unbound raises inside
  the second \<open>try\<close>, which catches and logs it; reading \<open>review_count\<close> while it is unbound
  raises outside any \<open>try\<close>.
\<close>

datatype signal = Continue | Break | Raise exn

definition page :: "env \<Rightarrow> nat \<Rightarrow> sstate \<Rightarrow> signal \<times> sstate" where
  "page env idx st =
     (let st1 = fetch_retry env (nat (n_retries env)) (st\<lparr>v_i := Some idx\<rparr>);
          st2 = (case v_reviews_soup st1 of
                   None \<Rightarrow> st1
                 | Some reviews \<Rightarrow> emit_reviews env reviews st1)
      in case v_review_count st2 of
           None \<Rightarrow> (Raise UnboundLocalError, st2)
         | Some cnt \<Rightarrow>
             if cnt < 10 \<or> v_token st2 = [] then (Break, st2) else (Continue, st2))"

fun pages :: "env \<Rightarrow> nat list \<Rightarrow> sstate \<Rightarrow> exn option \<times> sstate" where
  "pages env [] st = (None, st)"
| "pages env (idx # rest) st =
     (case page env idx st of
        (Continue, st') \<Rightarrow> pages env rest st'
      | (Break, st') \<Rightarrow> (None, st')
      | (Raise e, st') \<Rightarrow> (Some e, st'))"

text \<open>
  \<open>scrape_reviews\<close>. \<open>url_names\<close> and \<open>feature_ids\<close> are the matches the two
  \<open>re.findall\<close> calls find in the URL; \<open>[0]\<close> of an empty list raises. The last log line
  reads \<open>i\<close>, which is unbound when the loop body never ran. The result is the exception
  raised or the list returned, with the final state.
\<close>

definition initial :: "string \<Rightarrow> memory \<Rightarrow> sstate" where
  "initial tok m =
     \<lparr>v_token = tok, v_reviews_soup = None, v_review_count = None, v_results = [],
      v_j = 0, v_i = None, sent = [], rows = [], mem = m\<rparr>"

definition scrape_reviews ::
  "env \<Rightarrow> string list \<Rightarrow> string list \<Rightarrow> int \<Rightarrow> string \<Rightarrow> memory
     \<Rightarrow> (exn + review_result list) \<times> sstate" where
  "scrape_reviews env url_names feature_ids n_reviews tok m =
     (if url_names = [] \<or> feature_ids = [] then (Inl IndexError, initial tok m)
      else
        (let n_requests = \<lceil>(of_int n_reviews :: rat) / 10\<rceil> in
         case pages env [0..<nat n_requests] (initial tok m) of
           (Some e, st) \<Rightarrow> (Inl e, st)
         | (None, st) \<Rightarrow>
             (case v_i st of
                None \<Rightarrow> (Inl UnboundLocalError, st)
              | Some i \<Rightarrow> (Inr (v_results st), st))))"

section \<open>Example inputs\<close>

text \<open>A review node that holds only the rating element, with the given label.\<close>

definition rating_review :: "string \<Rightarrow> node" where
  "rating_review label =
     Tag ''div'' []
       [Tag ''span'' [(''class'', ''Fam1ne EBe2gf''), (''aria-label'', label)] []]"

text \<open>
  The label \<open>4,0 de un maximo de 5 estrellas\<close> of the specification (with an acute accent
  on the first \<open>a\<close> of the third word), and the same label with a decimal scale.
\<close>

definition label_es :: string where
  "label_es = ''4,0 de un m'' @ [CHR 0xC3, CHR 0xA1] @ ''ximo de 5 estrellas''"

definition label_es_decimal :: string where
  "label_es_decimal = ''4,0 de un m'' @ [CHR 0xC3, CHR 0xA1] @ ''ximo de 5,0 estrellas''"

text \<open>
  Two text blocks: \<open><span>a  b</span>\<close> with two spaces in its text, and
  \<open><span>Hello<br/>World<span class="x">More</span></span>\<close>.
\<close>

definition block_spaces :: node where
  "block_spaces = Tag ''span'' [] [NavigableString ''a  b'']"

definition block_break :: node where
  "block_break =
     Tag ''span'' []
       [NavigableString ''Hello'', Tag ''br'' [] [], NavigableString ''World'',
        Tag ''span'' [(''class'', ''x'')] [NavigableString ''More'']]"

section \<open>Notions used to state the properties\<close>

text \<open>
  The extractors that raise on a review node, in the order of \<open>_parse_review\<close>, each with
  the name it is reported under and the exception.
\<close>

definition failures_of :: "(string \<times> extractor) list \<Rightarrow> node option \<Rightarrow> (string \<times> exn) list" where
  "failures_of exs review =
     concat (map (\<lambda>ne. case snd (snd ne review) of None \<Rightarrow> [] | Some e \<Rightarrow> [(fst ne, e)]) exs)"

definition failures :: "node option \<Rightarrow> (string \<times> exn) list" where
  "failures review = failures_of extractors review"


text \<open>
  The assignments of all the blocks of \<open>_parse_review\<close>, in its order, on a record.
\<close>

definition assigned :: "node option \<Rightarrow> review_result \<Rightarrow> review_result" where
  "assigned review r = foldl (\<lambda>r ne. fst (snd ne review) r) r extractors"


text \<open>
  The files of the error handler, and the rows, can always be written.
\<close>

definition example_writes_succeed :: "env \<Rightarrow> bool" where
  "example_writes_succeed env \<longleftrightarrow> (\<forall>k nm review. write_example env k nm review = None)"

definition row_writes_succeed :: "env \<Rightarrow> bool" where
  "row_writes_succeed env \<longleftrightarrow> (\<forall>k result. write_row env k result = None)"

text \<open>
  The outcome of the requests of one retry loop: the first of at most \<open>n\<close> requests,
  numbered from \<open>k\<close> and all sent with the token \<open>tok\<close>, that returns, with its number.
\<close>

fun first_success ::
  "env \<Rightarrow> nat \<Rightarrow> nat \<Rightarrow> string \<Rightarrow> (nat \<times> node option list \<times> int \<times> string) option" where
  "first_success env 0 k tok = None"
| "first_success env (Suc n) k tok =
     (case get_api_response env k tok of
        Inr r \<Rightarrow> Some (k, r)
      | Inl e \<Rightarrow> first_success env n (Suc k) tok)"

section \<open>Example runs\<close>

text \<open>
  A store whose lists are all empty, and a review node on which no extractor raises:
  it holds a rating label, a date, a user name and a permalink.
\<close>

definition empty_memory :: memory where
  "empty_memory = \<lparr>heap = (\<lambda>a. []), examples = []\<rparr>"

definition good_review :: node where
  "good_review =
     Tag ''div'' []
       [Tag ''span'' [(''class'', ''Fam1ne EBe2gf''), (''aria-label'', ''4,0 de 5,0'')] [],
        Tag ''span'' [(''class'', ''dehysf lTi8oc'')] [NavigableString ''2 days ago''],
        Tag ''div'' [(''class'', ''TSUbDb'')] [NavigableString ''Ann''],
        Tag ''a'' [(''class'', ''RvU3D''), (''href'', ''https://m/r?postId=abc&hl=en'')] []]"

text \<open>
  Services. All use three attempts per page, the default record of the specification
  with its list at address 0, and a parser that finds the same page in every trimmed
  body; but for \<open>unwritable\<close>, every file and every row can be written. \<open>steady\<close> answers every request; its page holds one review node that the lookup
  did not find, the count 25 and the next token \<open>T1\<close>. \<open>final\<close> answers every request
  with the count 7 and the empty token. \<open>down\<close> fails every request. \<open>flaky\<close> answers the
  first request only, with the page of \<open>steady\<close>. \<open>unwritable\<close> is \<open>steady\<close> where the
  directory of the error handler's files cannot be written.
\<close>

definition service ::
  "(nat \<Rightarrow> string \<Rightarrow> exn + string) \<Rightarrow> node option list \<times> int \<times> string \<Rightarrow> env" where
  "service get pg =
     \<lparr>n_retries = 3, format_exc = (\<lambda>e. ''Traceback''), clock = (\<lambda>k. ''now''),
      http_get = get, parse_page = (\<lambda>doc. Inr pg),
      write_example = (\<lambda>k nm review. None), write_row = (\<lambda>k result. None),
      review_default_result = missing_result 0\<rparr>"

definition steady :: env where
  "steady = service (\<lambda>k tok. Inr ''<div a></div>'') ([None], 25, ''T1'')"

definition final :: env where
  "final = service (\<lambda>k tok. Inr ''<div a></div>'') ([None], 7, [])"

definition down :: env where
  "down = service (\<lambda>k tok. Inl (RequestError ''unreachable'')) ([None], 25, ''T1'')"

definition flaky :: env where
  "flaky = service (\<lambda>k tok. if k = 0 then Inr ''<div a></div>''
                            else Inl (RequestError ''unreachable''))
             ([None], 25, ''T1'')"


text \<open>
  Two calls of \<open>_parse_review\<close> in a row: first on the node on which nothing fails, then
  on a missing node; and the records they return.
\<close>

definition first_parse :: "(exn + review_result) \<times> memory" where
  "first_parse = parse_review steady ''t1'' (Some good_review) empty_memory"

definition second_parse :: "(exn + review_result) \<times> memory" where
  "second_parse = parse_review steady ''t2'' None (snd first_parse)"

definition first_record :: review_result where
  "first_record =
     (missing_result 0)\<lparr>review_id := Some ''abc'', retrieval_date := Some ''t1'',
        rating := Some 4, rating_max := Some 5, relative_date := Some ''2 days ago'',
        user_name := Some ''Ann''\<rparr>"

definition second_record :: review_result where
  "second_record = (missing_result 0)\<lparr>retrieval_date := Some ''t2''\<rparr>"



section \<open>Properties of the response fetcher\<close>

lemma find_at_first:
  "pat \<noteq> [] \<Longrightarrow> first_occurrence pat s i \<Longrightarrow> find_at pat s k = int (k + i)"
proof (induction s arbitrary: k i)
  case Nil
  then show ?case by (simp add: first_occurrence_def)
next
  case (Cons c cs)
  show ?case
  proof (cases i)
    case 0
    with Cons.prems show ?thesis by (simp add: first_occurrence_def)
  next
    case (Suc i')
    from Cons.prems Suc have np: "\<not> prefix pat (c # cs)"
      unfolding first_occurrence_def by (metis drop0 zero_less_Suc)
    have "first_occurrence pat cs i'"
      using Cons.prems Suc unfolding first_occurrence_def
      by (metis Suc_less_eq drop_Suc_Cons)
    from Cons.IH[OF Cons.prems(1) this, of "Suc k"] np Suc show ?thesis by simp
  qed
qed

lemma search_reverse_none:
  "pat \<noteq> [] \<Longrightarrow> \<not> occurs pat s \<Longrightarrow> search_reverse_end pat s n = None"
proof (induction s arbitrary: n)
  case Nil
  then show ?case by simp
next
  case (Cons c cs)
  have a: "\<not> prefix pat (c # cs)" using Cons.prems(2) unfolding occurs_def by (metis drop0)
  have b: "\<not> occurs pat cs" using Cons.prems(2) unfolding occurs_def by (metis drop_Suc_Cons)
  show ?case using Cons.IH[OF Cons.prems(1) b] a by simp
qed

lemma search_reverse_last:
  "pat \<noteq> [] \<Longrightarrow> last_occurrence pat s j \<Longrightarrow>
   search_reverse_end pat s n = Some (n + j + length pat)"
proof (induction s arbitrary: n j)
  case Nil
  then show ?case by (simp add: last_occurrence_def)
next
  case (Cons c cs)
  show ?case
  proof (cases j)
    case 0
    have "\<not> occurs pat cs"
      using Cons.prems(2) 0 unfolding last_occurrence_def occurs_def
      by (metis drop_Suc_Cons zero_less_Suc)
    from search_reverse_none[OF Cons.prems(1) this] Cons.prems(2) 0
    show ?thesis by (simp add: last_occurrence_def)
  next
    case (Suc j')
    have "last_occurrence pat cs j'"
      using Cons.prems(2) Suc unfolding last_occurrence_def
      by (metis Suc_less_eq drop_Suc_Cons)
    from Cons.IH[OF Cons.prems(1) this, of "Suc n"] Suc show ?thesis by simp
  qed
qed

lemma cut_response_span:
  assumes "first_occurrence ''<div '' s i" and "last_occurrence ''</div>'' s j"
  shows "cut_response s =
    Inr (''<html><body>'' @ take (j + 6 - i) (drop i s) @ ''</body></html>'')"
proof -
  have f: "str_find s ''<div '' = int i"
    using find_at_first[OF _ assms(1), of 0] by (simp add: str_find_def)
  have l: "search_reverse_end ''</div>'' s 0 = Some (j + 6)"
    using search_reverse_last[OF _ assms(2), of 0] by simp
  have "prefix ''</div>'' (drop j s)" using assms(2) by (simp add: last_occurrence_def)
  then have "length ''</div>'' \<le> length (drop j s)" by (rule prefix_length_le)
  then have jl: "j + 6 \<le> length s" by simp
  have "prefix ''<div '' (drop i s)" using assms(1) by (simp add: first_occurrence_def)
  then have "length ''<div '' \<le> length (drop i s)" by (rule prefix_length_le)
  then have il: "i + 5 \<le> length s" by simp
  have n: "nat (int j + 6 - int i) = j + 6 - i" by linarith
  have "py_slice s (int i) (int (j + 6)) = take (j + 6 - i) (drop i s)"
    using jl il by (simp add: py_slice_def Let_def min_def n)
  with f l show ?thesis by (simp add: cut_response_def)
qed

lemma cut_response_no_close:
  assumes "\<not> occurs ''</div>'' s"
  shows "cut_response s = Inl AttributeError"
  using search_reverse_none[OF _ assms, of 0] by (simp add: cut_response_def)

text \<open>
  Claim C6, as the code has it. When the body holds an opening \<open><div \<close> (the five
  characters, the space included) and a closing \<open></div>\<close>, \<open>_cut_response\<close> returns the
  text from the first \<open><div \<close> to the end of the last \<open></div>\<close> (nothing when that end
  comes first) between \<open><html><body>\<close> and \<open></body></html>\<close>; when the body holds no
  \<open></div>\<close> it raises \<open>AttributeError\<close>, which the retry loop of the caller catches.
\<close>

theorem cut_response_first_div_to_last_close:
  "(first_occurrence ''<div '' s i \<and> last_occurrence ''</div>'' s j \<longrightarrow>
      cut_response s =
        Inr (''<html><body>'' @ take (j + 6 - i) (drop i s) @ ''</body></html>''))
   \<and> (\<not> occurs ''</div>'' s \<longrightarrow> cut_response s = Inl AttributeError)"
  using cut_response_span cut_response_no_close by blast

lemma first_occurrence_start: "prefix pat s \<Longrightarrow> first_occurrence pat s 0"
  by (simp add: first_occurrence_def)

lemma last_occurrence_end:
  assumes "prefix pat (drop j s)" and "j + length pat = length s" and "pat \<noteq> []"
  shows "last_occurrence pat s j"
  unfolding last_occurrence_def
proof (intro conjI allI impI)
  show "prefix pat (drop j s)" by (rule assms(1))
next
  fix k
  assume "j < k"
  show "\<not> prefix pat (drop k s)"
  proof
    assume "prefix pat (drop k s)"
    then have "length pat \<le> length (drop k s)" by (rule prefix_length_le)
    then have a: "length pat \<le> length s - k" by simp
    have b: "0 < length pat" using assms(3) by simp
    from a b \<open>j < k\<close> assms(2) show False by linarith
  qed
qed

lemma short_not_occurs:
  assumes "length s < length pat"
  shows "\<not> occurs pat s"
  unfolding occurs_def
proof
  assume "\<exists>k. prefix pat (drop k s)"
  then obtain k where "prefix pat (drop k s)" ..
  then have "length pat \<le> length (drop k s)" by (rule prefix_length_le)
  with assms show False by simp
qed

theorem cut_response_first_div_to_last_close_witness:
  "cut_response ''<div a>x</div>'' = Inr ''<html><body><div a>x</div></body></html>''
   \<and> cut_response ''abc'' = Inl AttributeError"
proof -
  have f: "first_occurrence ''<div '' ''<div a>x</div>'' 0"
    by (rule first_occurrence_start) simp
  have l: "last_occurrence ''</div>'' ''<div a>x</div>'' 8"
    by (rule last_occurrence_end) simp_all
  have n: "\<not> occurs ''</div>'' ''abc''"
    by (rule short_not_occurs) simp
  show ?thesis
    using cut_response_first_div_to_last_close [of "''<div a>x</div>''" 0 8]
      cut_response_first_div_to_last_close [of "''abc''"] f l n
    by simp
qed

text \<open>
  Claim C6 as the specification words it names the opening \<open><div\<close>. A body whose only
  opening tag is \<open><div>\<close> holds it, yet \<open>find\<close> looks for \<open><div \<close> and answers \<open>-1\<close>, and
  the slice \<open>text[-1:12]\<close> is the last character. A body with a closing tag and no
  opening one is not refused either.
\<close>

theorem cut_response_counterexample:
  "cut_response ''<div>x</div>'' = Inr ''<html><body>></body></html>''
   \<and> cut_response ''<div>x</div>'' \<noteq> Inr ''<html><body><div>x</div></body></html>''
   \<and> cut_response ''x</div>'' = Inr ''<html><body>></body></html>''"
  by (simp add: cut_response_def str_find_def py_slice_def)

section \<open>Properties of the field extractors\<close>

lemmas text_eval = parse_review_text_def stripped_strings_def strip_def is_space_def
  del_quotes_def is_quote_def sub_space_def has_attr_def

lemmas number_eval = comma_to_period_def match_decimal_def py_float_def split_sign_def
  strip_def is_space_def is_digit_def digits_val_def digit_val_def

text \<open>
  Claim C7 says that \<open>_parse_review_text\<close> joins the direct text of the block up to the
  first child with a class, with every run of whitespace collapsed. The code pairs the
  children with the stripped strings of all depths by position, and replaces each
  whitespace character by a space of its own. On \<open><span>a  b</span>\<close> the two spaces
  stay; on \<open><span>Hello<br/>World<span class="x">More</span></span>\<close> the third pair is
  the child \<open>World\<close> with the string \<open>More\<close> of the classed child, so \<open>More\<close> is taken.
\<close>

theorem parse_review_text_keeps_runs_and_misaligns:
  "parse_review_text block_spaces = ''a  b''
   \<and> parse_review_text block_break = ''Hello World More''"
  by (simp add: block_spaces_def block_break_def text_eval)

lemma find_rating_review:
  "find_class (rating_review label) ''Fam1ne EBe2gf''
     = Some (Tag ''span'' [(''class'', ''Fam1ne EBe2gf''), (''aria-label'', label)] [])"
  by (simp add: rating_review_def find_class_def class_matches_def is_space_def)

lemma extract_rating_review:
  "extract_rating (Some (rating_review label)) = rating_of_label label"
  by (simp add: extract_rating_def find_rating_review)

text \<open>
  Claim C8 as the specification words it: the label \<open>4,0 de un maximo de 5 estrellas\<close>
  gives \<open>rating_max = 5.0\<close>. The pattern \<open>[0-9]+[.][0-9]*\<close> asks for a period behind the
  digits, so it finds \<open>4.0\<close> and not \<open>5\<close>: \<open>rating[1]\<close> raises \<open>IndexError\<close> and \<open>rating_max\<close>
  keeps the value it had.
\<close>

theorem rating_label_es_counterexample:
  "rating_max (fst (extract_rating (Some (rating_review label_es))) (missing_result 0))
     \<noteq> Some 5
   \<and> snd (extract_rating (Some (rating_review label_es))) = Some IndexError"
  by (simp add: extract_rating_review rating_of_label_def label_es_def number_eval
      missing_result_def)

text \<open>
  Claim C8, as the code has it. For the label \<open>4,0 de un maximo de 5 estrellas\<close> the
  rating block assigns \<open>rating = 4.0\<close>, leaves \<open>rating_max\<close> as it was and raises
  \<open>IndexError\<close>; for the label \<open>4,0 de un maximo de 5,0 estrellas\<close>, whose scale has a
  decimal separator, it assigns \<open>rating = 4.0\<close> and \<open>rating_max = 5.0\<close> and raises nothing.
\<close>

theorem rating_label_es:
  "extract_rating (Some (rating_review label_es))
     = (\<lambda>res. res\<lparr>rating := Some 4\<rparr>, Some IndexError)
   \<and> extract_rating (Some (rating_review label_es_decimal))
     = (\<lambda>res. res\<lparr>rating := Some 4, rating_max := Some 5\<rparr>, None)"
  by (simp add: extract_rating_review rating_of_label_def label_es_def label_es_decimal_def
      number_eval)

lemma comma_to_period_idem: "comma_to_period (comma_to_period s) = comma_to_period s"
  by (induction s) (simp_all add: comma_to_period_def)

lemma rating_of_label_cong:
  "comma_to_period s = comma_to_period s' \<Longrightarrow> rating_of_label s = rating_of_label s'"
  by (simp add: rating_of_label_def)

lemma overall_rating_cong:
  "comma_to_period s = comma_to_period s'
     \<Longrightarrow> overall_rating_of_text s = overall_rating_of_text s'"
  by (simp add: overall_rating_of_text_def)

text \<open>
  Claim C9. Two labels that differ only in commas written for periods give the same
  result of the rating block of \<open>_parse_review\<close> (the same assignments to \<open>rating\<close> and
  \<open>rating_max\<close>, the same exception if any), and the same result of the
  \<open>overall_rating\<close> block of \<open>_parse_place\<close>; so does a label and its form with periods.
  \<open>4,5\<close> and \<open>4.5\<close> both parse to \<open>4.5\<close>.
\<close>

theorem rating_comma_as_period:
  "(comma_to_period s = comma_to_period s' \<longrightarrow>
      rating_of_label s = rating_of_label s'
      \<and> extract_rating (Some (rating_review s)) = extract_rating (Some (rating_review s'))
      \<and> overall_rating_of_text s = overall_rating_of_text s')
   \<and> rating_of_label (comma_to_period s) = rating_of_label s
   \<and> overall_rating_of_text (comma_to_period s) = overall_rating_of_text s
   \<and> overall_rating_of_text ''4,5'' = Inr (9 / 2)
   \<and> overall_rating_of_text ''4.5'' = Inr (9 / 2)"
proof -
  have a: "rating_of_label (comma_to_period s) = rating_of_label s"
    by (rule rating_of_label_cong) (rule comma_to_period_idem)
  have b: "overall_rating_of_text (comma_to_period s) = overall_rating_of_text s"
    by (rule overall_rating_cong) (rule comma_to_period_idem)
  have c: "overall_rating_of_text ''4,5'' = Inr (9 / 2)"
    by (simp add: overall_rating_of_text_def number_eval)
  have d: "overall_rating_of_text ''4.5'' = Inr (9 / 2)"
    by (simp add: overall_rating_of_text_def number_eval)
  have e: "comma_to_period s = comma_to_period s' \<longrightarrow>
      rating_of_label s = rating_of_label s'
      \<and> extract_rating (Some (rating_review s)) = extract_rating (Some (rating_review s'))
      \<and> overall_rating_of_text s = overall_rating_of_text s'"
  proof
    assume h: "comma_to_period s = comma_to_period s'"
    have "rating_of_label s = rating_of_label s'" using h by (rule rating_of_label_cong)
    moreover have "overall_rating_of_text s = overall_rating_of_text s'"
      using h by (rule overall_rating_cong)
    ultimately show "rating_of_label s = rating_of_label s'
      \<and> extract_rating (Some (rating_review s)) = extract_rating (Some (rating_review s'))
      \<and> overall_rating_of_text s = overall_rating_of_text s'"
      by (simp only: extract_rating_review simp_thms)
  qed
  from e a b c d show ?thesis by blast
qed

theorem rating_comma_as_period_witness:
  "rating_of_label ''4,5 de 5,0'' = rating_of_label ''4.5 de 5.0''
   \<and> rating_of_label ''4.5 de 5.0''
       = (\<lambda>res. res\<lparr>rating := Some (9 / 2), rating_max := Some 5\<rparr>, None)
   \<and> overall_rating_of_text ''4,5'' = overall_rating_of_text ''4.5''"
proof -
  have h: "comma_to_period ''4,5 de 5,0'' = comma_to_period ''4.5 de 5.0''"
    by (simp add: comma_to_period_def)
  have h': "comma_to_period ''4,5'' = comma_to_period ''4.5''"
    by (simp add: comma_to_period_def)
  have v: "rating_of_label ''4.5 de 5.0''
       = (\<lambda>res. res\<lparr>rating := Some (9 / 2), rating_max := Some 5\<rparr>, None)"
    by (simp add: rating_of_label_def number_eval)
  show ?thesis
    using rating_comma_as_period [of "''4,5 de 5,0''" "''4.5 de 5.0''"]
      rating_comma_as_period [of "''4,5''" "''4.5''"] h h' v
    by simp
qed

section \<open>Properties of the record parser\<close>

lemma extract_text_frame:
  shows "token (fst (extract_text review) res) = token res"
    "review_id (fst (extract_text review) res) = review_id res"
    "retrieval_date (fst (extract_text review) res) = retrieval_date res"
    "rating (fst (extract_text review) res) = rating res"
    "rating_max (fst (extract_text review) res) = rating_max res"
    "relative_date (fst (extract_text review) res) = relative_date res"
    "likes (fst (extract_text review) res) = likes res"
    "other_ratings (fst (extract_text review) res) = other_ratings res"
    "trip_type_travel_group (fst (extract_text review) res) = trip_type_travel_group res"
    "user_name (fst (extract_text review) res) = user_name res"
    "user_is_local_guide (fst (extract_text review) res) = user_is_local_guide res"
    "user_reviews (fst (extract_text review) res) = user_reviews res"
    "user_photos (fst (extract_text review) res) = user_photos res"
    "user_url (fst (extract_text review) res) = user_url res"
    "response_text (fst (extract_text review) res) = response_text res"
    "response_relative_date (fst (extract_text review) res) = response_relative_date res"
    "errors (fst (extract_text review) res) = errors res"
  by (simp_all add: extract_text_def Let_def split: option.splits list.splits sum.splits)

lemma extract_rating_frame:
  shows "token (fst (extract_rating review) res) = token res"
    "review_id (fst (extract_rating review) res) = review_id res"
    "retrieval_date (fst (extract_rating review) res) = retrieval_date res"
    "relative_date (fst (extract_rating review) res) = relative_date res"
    "likes (fst (extract_rating review) res) = likes res"
    "other_ratings (fst (extract_rating review) res) = other_ratings res"
    "trip_type_travel_group (fst (extract_rating review) res) = trip_type_travel_group res"
    "user_name (fst (extract_rating review) res) = user_name res"
    "user_is_local_guide (fst (extract_rating review) res) = user_is_local_guide res"
    "user_reviews (fst (extract_rating review) res) = user_reviews res"
    "user_photos (fst (extract_rating review) res) = user_photos res"
    "user_url (fst (extract_rating review) res) = user_url res"
    "review_text (fst (extract_rating review) res) = review_text res"
    "response_text (fst (extract_rating review) res) = response_text res"
    "response_relative_date (fst (extract_rating review) res) = response_relative_date res"
    "errors (fst (extract_rating review) res) = errors res"
  by (simp_all add: extract_rating_def rating_of_label_def Let_def split: option.splits list.splits sum.splits)

lemma extract_other_ratings_frame:
  shows "token (fst (extract_other_ratings review) res) = token res"
    "review_id (fst (extract_other_ratings review) res) = review_id res"
    "retrieval_date (fst (extract_other_ratings review) res) = retrieval_date res"
    "rating (fst (extract_other_ratings review) res) = rating res"
    "rating_max (fst (extract_other_ratings review) res) = rating_max res"
    "relative_date (fst (extract_other_ratings review) res) = relative_date res"
    "likes (fst (extract_other_ratings review) res) = likes res"
    "trip_type_travel_group (fst (extract_other_ratings review) res) = trip_type_travel_group res"
    "user_name (fst (extract_other_ratings review) res) = user_name res"
    "user_is_local_guide (fst (extract_other_ratings review) res) = user_is_local_guide res"
    "user_reviews (fst (extract_other_ratings review) res) = user_reviews res"
    "user_photos (fst (extract_other_ratings review) res) = user_photos res"
    "user_url (fst (extract_other_ratings review) res) = user_url res"
    "review_text (fst (extract_other_ratings review) res) = review_text res"
    "response_text (fst (extract_other_ratings review) res) = response_text res"
    "response_relative_date (fst (extract_other_ratings review) res) = response_relative_date res"
    "errors (fst (extract_other_ratings review) res) = errors res"
  by (simp_all add: extract_other_ratings_def Let_def split: option.splits list.splits sum.splits)

lemma extract_relative_date_frame:
  shows "token (fst (extract_relative_date review) res) = token res"
    "review_id (fst (extract_relative_date review) res) = review_id res"
    "retrieval_date (fst (extract_relative_date review) res) = retrieval_date res"
    "rating (fst (extract_relative_date review) res) = rating res"
    "rating_max (fst (extract_relative_date review) res) = rating_max res"
    "likes (fst (extract_relative_date review) res) = likes res"
    "other_ratings (fst (extract_relative_date review) res) = other_ratings res"
    "trip_type_travel_group (fst (extract_relative_date review) res) = trip_type_travel_group res"
    "user_name (fst (extract_relative_date review) res) = user_name res"
    "user_is_local_guide (fst (extract_relative_date review) res) = user_is_local_guide res"
    "user_reviews (fst (extract_relative_date review) res) = user_reviews res"
    "user_photos (fst (extract_relative_date review) res) = user_photos res"
    "user_url (fst (extract_relative_date review) res) = user_url res"
    "review_text (fst (extract_relative_date review) res) = review_text res"
    "response_text (fst (extract_relative_date review) res) = response_text res"
    "response_relative_date (fst (extract_relative_date review) res) = response_relative_date res"
    "errors (fst (extract_relative_date review) res) = errors res"
  by (simp_all add: extract_relative_date_def Let_def split: option.splits list.splits sum.splits)

lemma extract_user_name_frame:
  shows "token (fst (extract_user_name review) res) = token res"
    "review_id (fst (extract_user_name review) res) = review_id res"
    "retrieval_date (fst (extract_user_name review) res) = retrieval_date res"
    "rating (fst (extract_user_name review) res) = rating res"
    "rating_max (fst (extract_user_name review) res) = rating_max res"
    "relative_date (fst (extract_user_name review) res) = relative_date res"
    "likes (fst (extract_user_name review) res) = likes res"
    "other_ratings (fst (extract_user_name review) res) = other_ratings res"
    "trip_type_travel_group (fst (extract_user_name review) res) = trip_type_travel_group res"
    "user_is_local_guide (fst (extract_user_name review) res) = user_is_local_guide res"
    "user_reviews (fst (extract_user_name review) res) = user_reviews res"
    "user_photos (fst (extract_user_name review) res) = user_photos res"
    "user_url (fst (extract_user_name review) res) = user_url res"
    "review_text (fst (extract_user_name review) res) = review_text res"
    "response_text (fst (extract_user_name review) res) = response_text res"
    "response_relative_date (fst (extract_user_name review) res) = response_relative_date res"
    "errors (fst (extract_user_name review) res) = errors res"
  by (simp_all add: extract_user_name_def Let_def split: option.splits list.splits sum.splits)

lemma extract_user_data_frame:
  shows "token (fst (extract_user_data review) res) = token res"
    "review_id (fst (extract_user_data review) res) = review_id res"
    "retrieval_date (fst (extract_user_data review) res) = retrieval_date res"
    "rating (fst (extract_user_data review) res) = rating res"
    "rating_max (fst (extract_user_data review) res) = rating_max res"
    "relative_date (fst (extract_user_data review) res) = relative_date res"
    "likes (fst (extract_user_data review) res) = likes res"
    "other_ratings (fst (extract_user_data review) res) = other_ratings res"
    "trip_type_travel_group (fst (extract_user_data review) res) = trip_type_travel_group res"
    "user_name (fst (extract_user_data review) res) = user_name res"
    "review_text (fst (extract_user_data review) res) = review_text res"
    "response_text (fst (extract_user_data review) res) = response_text res"
    "response_relative_date (fst (extract_user_data review) res) = response_relative_date res"
    "errors (fst (extract_user_data review) res) = errors res"
  by (simp_all add: extract_user_data_def Let_def split: option.splits list.splits sum.splits)

lemma extract_review_id_frame:
  shows "token (fst (extract_review_id review) res) = token res"
    "retrieval_date (fst (extract_review_id review) res) = retrieval_date res"
    "rating (fst (extract_review_id review) res) = rating res"
    "rating_max (fst (extract_review_id review) res) = rating_max res"
    "relative_date (fst (extract_review_id review) res) = relative_date res"
    "likes (fst (extract_review_id review) res) = likes res"
    "other_ratings (fst (extract_review_id review) res) = other_ratings res"
    "trip_type_travel_group (fst (extract_review_id review) res) = trip_type_travel_group res"
    "user_name (fst (extract_review_id review) res) = user_name res"
    "user_is_local_guide (fst (extract_review_id review) res) = user_is_local_guide res"
    "user_reviews (fst (extract_review_id review) res) = user_reviews res"
    "user_photos (fst (extract_review_id review) res) = user_photos res"
    "user_url (fst (extract_review_id review) res) = user_url res"
    "review_text (fst (extract_review_id review) res) = review_text res"
    "response_text (fst (extract_review_id review) res) = response_text res"
    "response_relative_date (fst (extract_review_id review) res) = response_relative_date res"
    "errors (fst (extract_review_id review) res) = errors res"
  by (simp_all add: extract_review_id_def Let_def split: option.splits list.splits sum.splits)

lemma extract_likes_frame:
  shows "token (fst (extract_likes review) res) = token res"
    "review_id (fst (extract_likes review) res) = review_id res"
    "retrieval_date (fst (extract_likes review) res) = retrieval_date res"
    "rating (fst (extract_likes review) res) = rating res"
    "rating_max (fst (extract_likes review) res) = rating_max res"
    "relative_date (fst (extract_likes review) res) = relative_date res"
    "other_ratings (fst (extract_likes review) res) = other_ratings res"
    "trip_type_travel_group (fst (extract_likes review) res) = trip_type_travel_group res"
    "user_name (fst (extract_likes review) res) = user_name res"
    "user_is_local_guide (fst (extract_likes review) res) = user_is_local_guide res"
    "user_reviews (fst (extract_likes review) res) = user_reviews res"
    "user_photos (fst (extract_likes review) res) = user_photos res"
    "user_url (fst (extract_likes review) res) = user_url res"
    "review_text (fst (extract_likes review) res) = review_text res"
    "response_text (fst (extract_likes review) res) = response_text res"
    "response_relative_date (fst (extract_likes review) res) = response_relative_date res"
    "errors (fst (extract_likes review) res) = errors res"
  by (simp_all add: extract_likes_def Let_def split: option.splits list.splits sum.splits)

lemma extract_response_frame:
  shows "token (fst (extract_response review) res) = token res"
    "review_id (fst (extract_response review) res) = review_id res"
    "retrieval_date (fst (extract_response review) res) = retrieval_date res"
    "rating (fst (extract_response review) res) = rating res"
    "rating_max (fst (extract_response review) res) = rating_max res"
    "relative_date (fst (extract_response review) res) = relative_date res"
    "likes (fst (extract_response review) res) = likes res"
    "other_ratings (fst (extract_response review) res) = other_ratings res"
    "trip_type_travel_group (fst (extract_response review) res) = trip_type_travel_group res"
    "user_name (fst (extract_response review) res) = user_name res"
    "user_is_local_guide (fst (extract_response review) res) = user_is_local_guide res"
    "user_reviews (fst (extract_response review) res) = user_reviews res"
    "user_photos (fst (extract_response review) res) = user_photos res"
    "user_url (fst (extract_response review) res) = user_url res"
    "review_text (fst (extract_response review) res) = review_text res"
    "errors (fst (extract_response review) res) = errors res"
  by (simp_all add: extract_response_def Let_def split: option.splits list.splits sum.splits)

lemma extract_trip_type_travel_group_frame:
  shows "token (fst (extract_trip_type_travel_group review) res) = token res"
    "review_id (fst (extract_trip_type_travel_group review) res) = review_id res"
    "retrieval_date (fst (extract_trip_type_travel_group review) res) = retrieval_date res"
    "rating (fst (extract_trip_type_travel_group review) res) = rating res"
    "rating_max (fst (extract_trip_type_travel_group review) res) = rating_max res"
    "relative_date (fst (extract_trip_type_travel_group review) res) = relative_date res"
    "likes (fst (extract_trip_type_travel_group review) res) = likes res"
    "other_ratings (fst (extract_trip_type_travel_group review) res) = other_ratings res"
    "user_name (fst (extract_trip_type_travel_group review) res) = user_name res"
    "user_is_local_guide (fst (extract_trip_type_travel_group review) res) = user_is_local_guide res"
    "user_reviews (fst (extract_trip_type_travel_group review) res) = user_reviews res"
    "user_photos (fst (extract_trip_type_travel_group review) res) = user_photos res"
    "user_url (fst (extract_trip_type_travel_group review) res) = user_url res"
    "review_text (fst (extract_trip_type_travel_group review) res) = review_text res"
    "response_text (fst (extract_trip_type_travel_group review) res) = response_text res"
    "response_relative_date (fst (extract_trip_type_travel_group review) res) = response_relative_date res"
    "errors (fst (extract_trip_type_travel_group review) res) = errors res"
  by (simp_all add: extract_trip_type_travel_group_def Let_def split: option.splits list.splits sum.splits)

lemmas extractor_frames = extract_text_frame extract_rating_frame extract_other_ratings_frame
  extract_relative_date_frame extract_user_name_frame extract_user_data_frame
  extract_review_id_frame extract_likes_frame extract_response_frame
  extract_trip_type_travel_group_frame

lemma failures_of_Cons:
  "failures_of (ne # exs) review =
     (case snd (snd ne review) of None \<Rightarrow> [] | Some e \<Rightarrow> [(fst ne, e)]) @ failures_of exs review"
  by (simp add: failures_of_def)

lemma handle_review_exception_written:
  "example_writes_succeed env \<Longrightarrow>
     handle_review_exception env e result review nm m =
       (None, m\<lparr>heap := (heap m)(errors result :=
                    heap m (errors result) @ [describe env nm e]),
                examples := examples m @ [(nm, review)]\<rparr>)"
  by (simp add: handle_review_exception_def example_writes_succeed_def Let_def)

lemma run_extractors_written:
  assumes w: "example_writes_succeed env"
    and "\<And>nm ex res. (nm, ex) \<in> set exs \<Longrightarrow> errors (fst (ex review) res) = errors res"
  shows "fst (run_extractors env review exs r m)
           = Inr (foldl (\<lambda>r ne. fst (snd ne review) r) r exs)
         \<and> (\<forall>a. heap (snd (run_extractors env review exs r m)) a
              = (if a = errors r
                 then heap m a @ map (\<lambda>(nm, e). describe env nm e) (failures_of exs review)
                 else heap m a))
         \<and> examples (snd (run_extractors env review exs r m))
              = examples m @ map (\<lambda>(nm, e). (nm, review)) (failures_of exs review)"
  using assms(2)
proof (induction exs arbitrary: r m)
  case Nil
  then show ?case by (simp add: failures_of_def)
next
  case (Cons ne exs)
  obtain nm ex where ne: "ne = (nm, ex)" by (cases ne)
  obtain assign eo where ex: "ex review = (assign, eo)" by (cases "ex review")
  have keep: "errors (assign r) = errors r"
    using Cons.prems[of nm ex r] ne ex by simp
  have rest: "errors (fst (ex' review) res) = errors res"
    if "(nm', ex') \<in> set exs" for nm' ex' res
    using Cons.prems[of nm' ex' res] that by simp
  have ih: "fst (run_extractors env review exs r' m')
           = Inr (foldl (\<lambda>r ne. fst (snd ne review) r) r' exs)
         \<and> (\<forall>a. heap (snd (run_extractors env review exs r' m')) a
              = (if a = errors r'
                 then heap m' a @ map (\<lambda>(nm, e). describe env nm e) (failures_of exs review)
                 else heap m' a))
         \<and> examples (snd (run_extractors env review exs r' m'))
              = examples m' @ map (\<lambda>(nm, e). (nm, review)) (failures_of exs review)"
    for r' m'
    by (rule Cons.IH) (erule rest)
  show ?case
  proof (cases eo)
    case None
    then have step: "run_extractors env review ((nm, ex) # exs) r m
        = run_extractors env review exs (assign r) m"
      by (simp add: ex)
    show ?thesis
      using ih[of "assign r" m] keep None
      by (simp add: step failures_of_Cons ne ex del: run_extractors.simps)
  next
    case (Some e)
    let ?m = "m\<lparr>heap := (heap m)(errors (assign r) :=
                    heap m (errors (assign r)) @ [describe env nm e]),
                examples := examples m @ [(nm, review)]\<rparr>"
    have step: "run_extractors env review ((nm, ex) # exs) r m
        = run_extractors env review exs (assign r) ?m"
      using Some by (simp add: ex handle_review_exception_written[OF w])
    show ?thesis
      using ih[of "assign r" ?m] keep Some
      by (simp add: step failures_of_Cons ne ex del: run_extractors.simps)
  qed
qed

lemma extractors_keep_errors:
  "(nm, ex) \<in> set extractors \<Longrightarrow> errors (fst (ex review) res) = errors res"
  by (auto simp add: extractors_def extractor_frames)

lemma parse_review_parts:
  assumes w: "example_writes_succeed env"
  shows "fst (parse_review env now review m)
     = Inr ((assigned review (review_default_result env))\<lparr>retrieval_date := Some now\<rparr>)"
    and "heap (snd (parse_review env now review m)) a
     = (if a = errors (review_default_result env)
        then heap m a @ map (\<lambda>(nm, e). describe env nm e) (failures review)
        else heap m a)"
    and "examples (snd (parse_review env now review m))
     = examples m @ map (\<lambda>(nm, e). (nm, review)) (failures review)"
proof -
  let ?F = "run_extractors env review extractors (review_default_result env) m"
  have f: "fst ?F
           = Inr (foldl (\<lambda>r ne. fst (snd ne review) r) (review_default_result env) extractors)
         \<and> (\<forall>a. heap (snd ?F) a
              = (if a = errors (review_default_result env)
                 then heap m a
                      @ map (\<lambda>(nm, e). describe env nm e) (failures_of extractors review)
                 else heap m a))
         \<and> examples (snd ?F)
              = examples m @ map (\<lambda>(nm, e). (nm, review)) (failures_of extractors review)"
    by (rule run_extractors_written[OF w]) (erule extractors_keep_errors)
  obtain x m' where q: "?F = (x, m')" by (cases ?F)
  with f have x: "x = Inr (assigned review (review_default_result env))"
    by (simp add: assigned_def)
  have p: "parse_review env now review m
      = (Inr ((assigned review (review_default_result env))\<lparr>retrieval_date := Some now\<rparr>), m')"
    by (simp add: parse_review_def q x)
  show "fst (parse_review env now review m)
     = Inr ((assigned review (review_default_result env))\<lparr>retrieval_date := Some now\<rparr>)"
    by (simp add: p)
  show "heap (snd (parse_review env now review m)) a
     = (if a = errors (review_default_result env)
        then heap m a @ map (\<lambda>(nm, e). describe env nm e) (failures review)
        else heap m a)"
    using f by (simp add: p q failures_def)
  show "examples (snd (parse_review env now review m))
     = examples m @ map (\<lambda>(nm, e). (nm, review)) (failures review)"
    using f by (simp add: p q failures_def)
qed




lemma assigned_None: "assigned None r = r"
  by (simp add: assigned_def extractors_def extract_text_def extract_rating_def
      extract_other_ratings_def extract_relative_date_def extract_user_name_def
      extract_user_data_def extract_review_id_def extract_likes_def extract_response_def
      extract_trip_type_travel_group_def)

lemma failures_None:
  "failures None =
     [(''text'', AttributeError), (''rating'', AttributeError),
      (''other_ratings'', AttributeError), (''relative_date'', AttributeError),
      (''user_name'', AttributeError), (''user_data'', AttributeError),
      (''review_id'', AttributeError), (''likes'', AttributeError),
      (''response'', AttributeError), (''trip_type_travel_group'', AttributeError)]"
  by (simp add: failures_def failures_of_def extractors_def extract_text_def extract_rating_def
      extract_other_ratings_def extract_relative_date_def extract_user_name_def
      extract_user_data_def extract_review_id_def extract_likes_def extract_response_def
      extract_trip_type_travel_group_def)


section \<open>Properties of the pagination loop\<close>

lemma fetch_retry_frame:
  "v_results (fetch_retry env n st) = v_results st"
  "v_j (fetch_retry env n st) = v_j st"
  "v_i (fetch_retry env n st) = v_i st"
  "rows (fetch_retry env n st) = rows st"
  "mem (fetch_retry env n st) = mem st"
  by (induction n arbitrary: st; simp split: sum.splits prod.splits)+

lemma fetch_retry_success:
  "first_success env n (length (sent st)) (v_token st) = Some (k, reviews, cnt, tok) \<Longrightarrow>
     v_reviews_soup (fetch_retry env n st) = Some reviews
     \<and> v_review_count (fetch_retry env n st) = Some cnt
     \<and> v_token (fetch_retry env n st) = tok
     \<and> sent (fetch_retry env n st)
         = sent st @ replicate (Suc k - length (sent st)) (v_token st)
     \<and> length (sent st) \<le> k \<and> k < length (sent st) + n"
proof (induction n arbitrary: st)
  case 0
  then show ?case by simp
next
  case (Suc n)
  show ?case
  proof (cases "get_api_response env (length (sent st)) (v_token st)")
    case (Inr r)
    with Suc.prems show ?thesis by (auto split: prod.splits)
  next
    case (Inl e)
    let ?st = "st\<lparr>sent := sent st @ [v_token st]\<rparr>"
    from Suc.prems Inl
    have "first_success env n (length (sent ?st)) (v_token ?st) = Some (k, reviews, cnt, tok)"
      by simp
    from Suc.IH[OF this] Inl show ?thesis
      by (simp add: Suc_diff_le replicate_app_Cons_same)
  qed
qed

lemma fetch_retry_failure:
  "first_success env n (length (sent st)) (v_token st) = None \<Longrightarrow>
     v_reviews_soup (fetch_retry env n st) = v_reviews_soup st
     \<and> v_review_count (fetch_retry env n st) = v_review_count st
     \<and> v_token (fetch_retry env n st) = v_token st
     \<and> sent (fetch_retry env n st) = sent st @ replicate n (v_token st)"
proof (induction n arbitrary: st)
  case 0
  then show ?case by simp
next
  case (Suc n)
  from Suc.prems obtain e where
    e: "get_api_response env (length (sent st)) (v_token st) = Inl e"
    by (cases "get_api_response env (length (sent st)) (v_token st)") auto
  let ?st = "st\<lparr>sent := sent st @ [v_token st]\<rparr>"
  from Suc.prems e
  have "first_success env n (length (sent ?st)) (v_token ?st) = None" by simp
  from Suc.IH[OF this] e show ?case by (simp add: replicate_app_Cons_same)
qed

lemma emit_reviews_frame:
  "v_token (emit_reviews env reviews st) = v_token st"
  "v_review_count (emit_reviews env reviews st) = v_review_count st"
  "v_reviews_soup (emit_reviews env reviews st) = v_reviews_soup st"
  "v_i (emit_reviews env reviews st) = v_i st"
  "sent (emit_reviews env reviews st) = sent st"
  by (induction reviews arbitrary: st;
      simp add: Let_def split: prod.splits sum.splits option.splits)+

lemma emit_reviews_results:
  "\<exists>recs. v_results (emit_reviews env reviews st) = v_results st @ recs
     \<and> length recs \<le> length reviews
     \<and> (\<forall>r\<in>set recs. token r = Some (v_token st))"
proof (induction reviews arbitrary: st)
  case Nil
  show ?case by simp
next
  case (Cons review rest)
  obtain x m where p: "parse_review env (clock env (v_j st)) review (mem st) = (x, m)"
    by (cases "parse_review env (clock env (v_j st)) review (mem st)")
  show ?case
  proof (cases x)
    case (Inl e)
    then show ?thesis by (simp add: p)
  next
    case (Inr parsed)
    let ?result = "parsed\<lparr>token := Some (v_token st)\<rparr>"
    show ?thesis
    proof (cases "write_row env (length (rows st)) ?result")
      case (Some e)
      then show ?thesis by (simp add: p Inr Let_def)
    next
      case None
      let ?st = "st\<lparr>mem := m, rows := rows st @ [(?result, heap m (errors ?result))],
                    v_results := v_results st @ [?result], v_j := Suc (v_j st)\<rparr>"
      from Cons.IH[of ?st] obtain recs where
        r: "v_results (emit_reviews env rest ?st) = v_results ?st @ recs"
           "length recs \<le> length rest" "\<forall>r\<in>set recs. token r = Some (v_token ?st)"
        by blast
      have "v_results (emit_reviews env (review # rest) st) = v_results st @ (?result # recs)"
        using r(1) p Inr None by (simp add: Let_def)
      moreover have "length (?result # recs) \<le> length (review # rest)" using r(2) by simp
      moreover have "\<forall>r\<in>set (?result # recs). token r = Some (v_token st)"
        using r(3) by simp
      ultimately show ?thesis by blast
    qed
  qed
qed

lemma emit_reviews_written:
  assumes "example_writes_succeed env" and "row_writes_succeed env"
  shows "length (v_results (emit_reviews env reviews st))
           = length (v_results st) + length reviews
         \<and> length (rows (emit_reviews env reviews st)) = length (rows st) + length reviews"
proof (induction reviews arbitrary: st)
  case Nil
  show ?case by simp
next
  case (Cons review rest)
  obtain x m where p: "parse_review env (clock env (v_j st)) review (mem st) = (x, m)"
    by (cases "parse_review env (clock env (v_j st)) review (mem st)")
  from parse_review_parts(1)[OF assms(1), of "clock env (v_j st)" review "mem st"] p
  obtain parsed where x: "x = Inr parsed" by simp
  let ?result = "parsed\<lparr>token := Some (v_token st)\<rparr>"
  have wr: "write_row env (length (rows st)) ?result = None"
    using assms(2) by (simp add: row_writes_succeed_def)
  show ?case
    using Cons.IH[of "st\<lparr>mem := m, rows := rows st @ [(?result, heap m (errors ?result))],
                    v_results := v_results st @ [?result], v_j := Suc (v_j st)\<rparr>"]
    by (simp add: p x wr Let_def)
qed

lemma first_success_response:
  "first_success env n k0 tok0 = Some (k, r) \<Longrightarrow> get_api_response env k tok0 = Inr r"
  by (induction n arbitrary: k0) (auto split: sum.splits)

lemma page_success:
  assumes "first_success env (nat (n_retries env)) (length (sent st)) (v_token st)
             = Some (k, reviews, cnt, tok)"
  shows "fst (page env idx st) = (if cnt < 10 \<or> tok = [] then Break else Continue)"
    and "\<exists>recs. v_results (snd (page env idx st)) = v_results st @ recs
           \<and> length recs \<le> length reviews \<and> (\<forall>r\<in>set recs. token r = Some tok)"
    and "example_writes_succeed env \<and> row_writes_succeed env \<longrightarrow>
           length (v_results (snd (page env idx st))) = length (v_results st) + length reviews
           \<and> length (rows (snd (page env idx st))) = length (rows st) + length reviews"
    and "v_token (snd (page env idx st)) = tok"
proof -
  let ?st0 = "st\<lparr>v_i := Some idx\<rparr>"
  let ?st1 = "fetch_retry env (nat (n_retries env)) ?st0"
  have "first_success env (nat (n_retries env)) (length (sent ?st0)) (v_token ?st0)
          = Some (k, reviews, cnt, tok)"
    using assms by simp
  from fetch_retry_success[OF this]
  have s: "v_reviews_soup ?st1 = Some reviews" "v_review_count ?st1 = Some cnt"
    "v_token ?st1 = tok"
    by simp_all
  have f: "v_results ?st1 = v_results st" "rows ?st1 = rows st"
    by (simp_all add: fetch_retry_frame)
  let ?st2 = "emit_reviews env reviews ?st1"
  have p: "page env idx st
      = (if cnt < 10 \<or> tok = [] then (Break, ?st2) else (Continue, ?st2))"
    using s by (simp add: page_def Let_def emit_reviews_frame)
  show "fst (page env idx st) = (if cnt < 10 \<or> tok = [] then Break else Continue)"
    by (simp add: p)
  have sn: "snd (page env idx st) = ?st2" by (simp add: p)
  show "\<exists>recs. v_results (snd (page env idx st)) = v_results st @ recs
           \<and> length recs \<le> length reviews \<and> (\<forall>r\<in>set recs. token r = Some tok)"
    using emit_reviews_results[of env reviews ?st1] s(3) f(1) unfolding sn by simp
  show "example_writes_succeed env \<and> row_writes_succeed env \<longrightarrow>
           length (v_results (snd (page env idx st))) = length (v_results st) + length reviews
           \<and> length (rows (snd (page env idx st))) = length (rows st) + length reviews"
    using emit_reviews_written[of env reviews ?st1] f unfolding sn by simp
  show "v_token (snd (page env idx st)) = tok"
    unfolding sn by (simp add: emit_reviews_frame s)
qed

lemma cut_example: "cut_response ''<div a></div>'' = Inr ''<html><body><div a></div></body></html>''"
  by (simp add: cut_response_def str_find_def py_slice_def)

lemma service_written:
  "example_writes_succeed (service get pg)" "row_writes_succeed (service get pg)"
  by (simp_all add: example_writes_succeed_def row_writes_succeed_def service_def)

lemma failures_good: "failures (Some good_review) = []"
  by (simp add: failures_def failures_of_def extractors_def good_review_def
      extract_text_def extract_rating_def rating_of_label_def
      extract_other_ratings_def extract_relative_date_def extract_user_name_def
      extract_user_data_def extract_review_id_def extract_likes_def extract_response_def
      extract_trip_type_travel_group_def find_class_def find_has_attr_def find_attr_def
      class_matches_def has_attr_def is_space_def number_eval)

lemma steady_first: "first_success steady (nat (n_retries steady)) 0 tok = Some (0, [None], 25, ''T1'')"
  by (simp add: steady_def service_def get_api_response_def cut_example eval_nat_numeral)

lemma down_run:
  "fst (scrape_reviews down [''place''] [''0x1:0x2''] 30 ''T0'' empty_memory) = Inl UnboundLocalError"
  "v_i (snd (scrape_reviews down [''place''] [''0x1:0x2''] 30 ''T0'' empty_memory)) = Some 0"
  "sent (snd (scrape_reviews down [''place''] [''0x1:0x2''] 30 ''T0'' empty_memory)) = [''T0'', ''T0'', ''T0'']"
  by (simp_all add: scrape_reviews_def down_def service_def initial_def page_def
      get_api_response_def eval_nat_numeral upt_rec)

lemma service_get:
  "get_api_response (service get pg) k tok
     = (case get k tok of
          Inl e \<Rightarrow> Inl e
        | Inr body \<Rightarrow> (case cut_response body of Inl e \<Rightarrow> Inl e | Inr doc \<Rightarrow> Inr pg))"
  "n_retries (service get pg) = 3"
  by (simp_all add: get_api_response_def service_def split: sum.splits)

lemma service_fields:
  "review_default_result (service get pg) = missing_result 0"
  "clock (service get pg) k = ''now''"
  by (simp_all add: service_def)

lemma emit_reviews_None_written:
  assumes "example_writes_succeed env" and "row_writes_succeed env"
  shows "emit_reviews env [None] st =
     (let result = (review_default_result env)
            \<lparr>retrieval_date := Some (clock env (v_j st)), token := Some (v_token st)\<rparr>;
          m = snd (parse_review env (clock env (v_j st)) None (mem st))
      in st\<lparr>mem := m, rows := rows st @ [(result, heap m (errors result))],
            v_results := v_results st @ [result], v_j := Suc (v_j st)\<rparr>)"
proof -
  obtain x m where p: "parse_review env (clock env (v_j st)) None (mem st) = (x, m)"
    by (cases "parse_review env (clock env (v_j st)) None (mem st)")
  from parse_review_parts(1)[OF assms(1), of "clock env (v_j st)" None "mem st"] p
  have x: "x = Inr ((review_default_result env)\<lparr>retrieval_date := Some (clock env (v_j st))\<rparr>)"
    by (simp add: assigned_None)
  show ?thesis
    using assms(2) by (simp add: p x Let_def row_writes_succeed_def)
qed

lemma final_first: "first_success final (nat (n_retries final)) 0 tok = Some (0, [None], 7, [])"
  by (simp add: final_def service_def get_api_response_def cut_example eval_nat_numeral)

lemma flaky_run:
  "fst (scrape_reviews flaky [''place''] [''0x1:0x2''] 20 ''T0'' empty_memory)
     = Inr (v_results (snd (scrape_reviews flaky [''place''] [''0x1:0x2''] 20 ''T0'' empty_memory)))"
  "map token (v_results (snd (scrape_reviews flaky [''place''] [''0x1:0x2''] 20 ''T0'' empty_memory)))
     = [Some ''T1'', Some ''T1'']"
  "sent (snd (scrape_reviews flaky [''place''] [''0x1:0x2''] 20 ''T0'' empty_memory))
     = [''T0'', ''T1'', ''T1'', ''T1'']"
  by (simp_all add: scrape_reviews_def flaky_def initial_def page_def emit_reviews_None_written
      service_written service_get service_fields cut_example eval_nat_numeral upt_rec Let_def
      del: emit_reviews.simps)

lemma steady_run:
  "map token (v_results (snd (scrape_reviews steady [''place''] [''0x1:0x2''] 10 ''T0'' empty_memory)))
     = [Some ''T1'']"
  "sent (snd (scrape_reviews steady [''place''] [''0x1:0x2''] 10 ''T0'' empty_memory)) = [''T0'']"
  by (simp_all add: scrape_reviews_def steady_def initial_def page_def emit_reviews_None_written
      service_written service_get service_fields cut_example eval_nat_numeral upt_rec Let_def
      del: emit_reviews.simps)

lemma page_success_sent:
  assumes "first_success env (nat (n_retries env)) (length (sent st)) (v_token st)
             = Some (k, reviews, cnt, tok)"
  shows "sent (snd (page env idx st))
           = sent st @ replicate (Suc k - length (sent st)) (v_token st)"
    and "v_i (snd (page env idx st)) = Some idx"
proof -
  let ?st0 = "st\<lparr>v_i := Some idx\<rparr>"
  let ?st1 = "fetch_retry env (nat (n_retries env)) ?st0"
  have a: "first_success env (nat (n_retries env)) (length (sent ?st0)) (v_token ?st0)
          = Some (k, reviews, cnt, tok)"
    using assms by simp
  from fetch_retry_success[OF a]
  have s: "v_reviews_soup ?st1 = Some reviews" "v_review_count ?st1 = Some cnt"
    "sent ?st1 = sent st @ replicate (Suc k - length (sent st)) (v_token st)"
    by simp_all
  have i: "v_i ?st1 = Some idx" by (simp add: fetch_retry_frame)
  have sn: "snd (page env idx st) = emit_reviews env reviews ?st1"
    using s by (simp add: page_def Let_def emit_reviews_frame)
  show "sent (snd (page env idx st))
           = sent st @ replicate (Suc k - length (sent st)) (v_token st)"
    unfolding sn by (simp add: emit_reviews_frame s)
  show "v_i (snd (page env idx st)) = Some idx"
    unfolding sn by (simp add: emit_reviews_frame i)
qed

text \<open>
  What a page does when no request of its retry loop returns: with the variables
  unbound it raises; with the variables of an earlier page it parses and writes the
  reviews of that page again and goes on as that page did.
\<close>

lemma page_failure_unbound:
  assumes "first_success env (nat (n_retries env)) (length (sent st)) (v_token st) = None"
    and "v_reviews_soup st = None" and "v_review_count st = None"
  shows "fst (page env idx st) = Raise UnboundLocalError"
    and "v_results (snd (page env idx st)) = v_results st"
proof -
  let ?st0 = "st\<lparr>v_i := Some idx\<rparr>"
  let ?st1 = "fetch_retry env (nat (n_retries env)) ?st0"
  have "first_success env (nat (n_retries env)) (length (sent ?st0)) (v_token ?st0) = None"
    using assms(1) by simp
  from fetch_retry_failure[OF this]
  have s: "v_reviews_soup ?st1 = None" "v_review_count ?st1 = None"
    using assms(2,3) by simp_all
  have p: "page env idx st = (Raise UnboundLocalError, ?st1)"
    using s by (simp add: page_def Let_def)
  show "fst (page env idx st) = Raise UnboundLocalError" by (simp add: p)
  show "v_results (snd (page env idx st)) = v_results st"
    by (simp add: p fetch_retry_frame)
qed

lemma page_failure_stale:
  assumes "first_success env (nat (n_retries env)) (length (sent st)) (v_token st) = None"
    and "v_reviews_soup st = Some reviews" and "v_review_count st = Some cnt"
  shows "fst (page env idx st) = (if cnt < 10 \<or> v_token st = [] then Break else Continue)"
    and "\<exists>recs. v_results (snd (page env idx st)) = v_results st @ recs
           \<and> length recs \<le> length reviews
           \<and> (\<forall>r\<in>set recs. token r = Some (v_token st))"
proof -
  let ?st0 = "st\<lparr>v_i := Some idx\<rparr>"
  let ?st1 = "fetch_retry env (nat (n_retries env)) ?st0"
  have "first_success env (nat (n_retries env)) (length (sent ?st0)) (v_token ?st0) = None"
    using assms(1) by simp
  from fetch_retry_failure[OF this]
  have s: "v_reviews_soup ?st1 = Some reviews" "v_review_count ?st1 = Some cnt"
    "v_token ?st1 = v_token st"
    using assms(2,3) by simp_all
  let ?st2 = "emit_reviews env reviews ?st1"
  have p: "page env idx st
      = (if cnt < 10 \<or> v_token st = [] then (Break, ?st2) else (Continue, ?st2))"
    using s by (simp add: page_def Let_def emit_reviews_frame)
  show "fst (page env idx st) = (if cnt < 10 \<or> v_token st = [] then Break else Continue)"
    by (simp add: p)
  have sn: "snd (page env idx st) = ?st2" by (simp add: p)
  show "\<exists>recs. v_results (snd (page env idx st)) = v_results st @ recs
           \<and> length recs \<le> length reviews
           \<and> (\<forall>r\<in>set recs. token r = Some (v_token st))"
    using emit_reviews_results[of env reviews ?st1] s(3) unfolding sn
    by (simp add: fetch_retry_frame)
qed

text \<open>
  When every request returns a page with at least ten reviews left and a token, every
  planned page is requested once: the loop sends as many requests as pages were planned.
\<close>

lemma planned_pages_all_requested:
  assumes ok: "\<And>k tok. \<exists>reviews cnt tok'.
        get_api_response env k tok = Inr (reviews, cnt, tok') \<and> 10 \<le> cnt \<and> tok' \<noteq> []"
    and n: "0 < n_retries env"
  shows "fst (pages env idxs st) = None
     \<and> length (sent (snd (pages env idxs st))) = length (sent st) + length idxs
     \<and> (idxs \<noteq> [] \<longrightarrow> v_i (snd (pages env idxs st)) = Some (last idxs))"
proof (induction idxs arbitrary: st)
  case Nil
  show ?case by simp
next
  case (Cons idx rest)
  from ok[of "length (sent st)" "v_token st"] obtain reviews cnt tok' where
    g: "get_api_response env (length (sent st)) (v_token st) = Inr (reviews, cnt, tok')"
    and c: "10 \<le> cnt" "tok' \<noteq> []"
    by blast
  from n obtain n' where n': "nat (n_retries env) = Suc n'"
    by (cases "nat (n_retries env)") auto
  have f: "first_success env (nat (n_retries env)) (length (sent st)) (v_token st)
      = Some (length (sent st), reviews, cnt, tok')"
    by (simp add: n' g)
  have sg: "fst (page env idx st) = Continue"
    using page_success(1)[OF f, of idx] c by simp
  have se: "sent (snd (page env idx st)) = sent st @ [v_token st]"
    using page_success_sent(1)[OF f, of idx] by simp
  have vi: "v_i (snd (page env idx st)) = Some idx"
    by (rule page_success_sent(2)[OF f])
  obtain st' where p: "page env idx st = (Continue, st')"
    using sg by (cases "page env idx st") auto
  have se': "sent st' = sent st @ [v_token st]" using se by (simp add: p)
  have vi': "v_i st' = Some idx" using vi by (simp add: p)
  show ?case
    using Cons.IH[of st'] se' vi'
    by (cases rest) (simp_all add: p)
qed

lemma ceiling_tenth: "0 < n \<Longrightarrow> 0 < \<lceil>(of_int n :: rat) / 10\<rceil>"
  by simp

lemma scrape_reviews_requests_planned_pages:
  assumes ok: "\<And>k tok. \<exists>reviews cnt tok'.
        get_api_response env k tok = Inr (reviews, cnt, tok') \<and> 10 \<le> cnt \<and> tok' \<noteq> []"
    and n: "0 < n_retries env" and pos: "0 < n_reviews"
  shows "fst (scrape_reviews env [url_name] [feature_id] n_reviews tok m)
           = Inr (v_results (snd (scrape_reviews env [url_name] [feature_id] n_reviews tok m)))
     \<and> int (length (sent (snd (scrape_reviews env [url_name] [feature_id] n_reviews tok m))))
           = \<lceil>(of_int n_reviews :: rat) / 10\<rceil>"
proof -
  let ?idxs = "[0..<nat \<lceil>(of_int n_reviews :: rat) / 10\<rceil>]"
  have ne: "?idxs \<noteq> []" using ceiling_tenth[OF pos] by simp
  note a = planned_pages_all_requested[OF ok n, of ?idxs "initial tok m"]
  obtain ex st where q: "pages env ?idxs (initial tok m) = (ex, st)"
    by (cases "pages env ?idxs (initial tok m)")
  from a q ne have e: "ex = None" and l: "length (sent st) = length ?idxs"
    and i: "v_i st = Some (last ?idxs)"
    by (simp_all add: initial_def)
  have r: "scrape_reviews env [url_name] [feature_id] n_reviews tok m = (Inr (v_results st), st)"
    using q e i by (simp add: scrape_reviews_def Let_def)
  show ?thesis using l ceiling_tenth[OF pos] by (simp add: r)
qed

section \<open>The claims on the record parser and the pagination loop\<close>






text \<open>
  Claim C2 says that a page whose attempts all fail yields no record and no exception.
  When no request of the first page returns, \<open>reviews_soup\<close> and \<open>review_count\<close> are
  unbound: the loop over the reviews raises inside its \<open>try\<close>, the test
  \<open>review_count < 10\<close> raises outside, and \<open>scrape_reviews\<close> ends in \<open>UnboundLocalError\<close>.
  When an earlier page was fetched, the variables still hold that page, whose reviews
  are parsed and written once more: with \<open>flaky\<close>, two pages give two records from the
  one review node of the first page, the second after three failed requests. The token
  is the one thing kept right: all three carry the token of the last response.
\<close>

theorem exhausted_retries_raise_or_repeat:
  "fst (scrape_reviews down [''place''] [''0x1:0x2''] 30 ''T0'' empty_memory)
     = Inl UnboundLocalError
   \<and> sent (snd (scrape_reviews flaky [''place''] [''0x1:0x2''] 20 ''T0'' empty_memory))
     = [''T0'', ''T1'', ''T1'', ''T1'']
   \<and> map token (v_results (snd (scrape_reviews flaky [''place''] [''0x1:0x2''] 20 ''T0''
        empty_memory)))
     = [Some ''T1'', Some ''T1'']"
  by (simp add: down_run flaky_run)

text \<open>
  Claim C3 as the specification words it: the record carries the token that was sent
  in the request of its page. With \<open>steady\<close> the one request is sent with \<open>T0\<close> and the
  record carries \<open>T1\<close>, the token the response gave for the next page: the call
  assigns the returned token to \<open>token\<close> before the records are stamped.
\<close>

theorem record_token_counterexample:
  "sent (snd (scrape_reviews steady [''place''] [''0x1:0x2''] 10 ''T0'' empty_memory))
     = [''T0'']
   \<and> map token (v_results (snd (scrape_reviews steady [''place''] [''0x1:0x2''] 10 ''T0''
        empty_memory)))
     = [Some ''T1'']
   \<and> Some ''T1'' \<noteq> Some ''T0''"
  by (simp add: steady_run)

text \<open>
  Claim C3, as the code has it. On a page whose request \<open>k\<close>, sent with the current
  token, returns the reviews, a count and the next token \<open>tok\<close>, the records appended
  (one for each review node when the files and rows can be written, never more) each
  carry \<open>tok\<close>, the token returned by the response that brought the review, which is
  also the token the next request is sent with.
\<close>

theorem records_carry_returned_token:
  "first_success env (nat (n_retries env)) (length (sent st)) (v_token st)
     = Some (k, reviews, cnt, tok) \<Longrightarrow>
   get_api_response env k (v_token st) = Inr (reviews, cnt, tok)
   \<and> (\<exists>recs. v_results (snd (page env idx st)) = v_results st @ recs
         \<and> length recs \<le> length reviews
         \<and> (example_writes_succeed env \<and> row_writes_succeed env \<longrightarrow>
               length recs = length reviews)
         \<and> (\<forall>r\<in>set recs. token r = Some tok))
   \<and> v_token (snd (page env idx st)) = tok"
proof -
  assume a: "first_success env (nat (n_retries env)) (length (sent st)) (v_token st)
     = Some (k, reviews, cnt, tok)"
  from page_success(2)[OF a, of idx] obtain recs where
    r: "v_results (snd (page env idx st)) = v_results st @ recs"
       "length recs \<le> length reviews" "\<forall>r\<in>set recs. token r = Some tok"
    by blast
  have "example_writes_succeed env \<and> row_writes_succeed env \<longrightarrow>
      length recs = length reviews"
    using page_success(3)[OF a, of idx] r(1) by simp
  with r have "\<exists>recs. v_results (snd (page env idx st)) = v_results st @ recs
         \<and> length recs \<le> length reviews
         \<and> (example_writes_succeed env \<and> row_writes_succeed env \<longrightarrow>
               length recs = length reviews)
         \<and> (\<forall>r\<in>set recs. token r = Some tok)"
    by blast
  then show ?thesis
    using first_success_response[OF a] page_success(4)[OF a, of idx] by simp
qed

theorem records_carry_returned_token_witness:
  "map token (v_results (snd (page steady 0 (initial ''T0'' empty_memory)))) = [Some ''T1'']
   \<and> v_token (snd (page steady 0 (initial ''T0'' empty_memory))) = ''T1''"
proof -
  have f: "first_success steady (nat (n_retries steady))
      (length (sent (initial ''T0'' empty_memory))) (v_token (initial ''T0'' empty_memory))
      = Some (0, [None], 25, ''T1'')"
    by (simp add: initial_def steady_first)
  have i: "v_results (initial ''T0'' empty_memory) = []" by (simp add: initial_def)
  have w: "example_writes_succeed steady" "row_writes_succeed steady"
    by (simp_all add: steady_def service_written)
  from records_carry_returned_token[OF f, of 0] w obtain recs where
    r: "v_results (snd (page steady 0 (initial ''T0'' empty_memory))) = recs"
       "length recs = 1" "\<forall>r\<in>set recs. token r = Some ''T1''"
    and t: "v_token (snd (page steady 0 (initial ''T0'' empty_memory))) = ''T1''"
    by (auto simp add: i)
  from r(2) obtain x where "recs = [x]" by (cases recs) auto
  with r t show ?thesis by simp
qed

text \<open>
  Claim C4. After a page that was fetched (some request of its retry loop returned
  the count \<open>cnt\<close> and the next token \<open>tok\<close>), the body of the loop ends in \<open>break\<close> when
  \<open>cnt < 10\<close> or \<open>tok\<close> is empty and goes on otherwise, and nothing else is looked at:
  the loop over the pages still planned stops there in the first case and proceeds to
  the next planned page in the second.
\<close>

theorem pagination_stops_on_short_count_or_empty_token:
  "first_success env (nat (n_retries env)) (length (sent st)) (v_token st)
     = Some (k, reviews, cnt, tok) \<Longrightarrow>
   fst (page env idx st) = (if cnt < 10 \<or> tok = [] then Break else Continue)
   \<and> pages env (idx # rest) st
       = (if cnt < 10 \<or> tok = [] then (None, snd (page env idx st))
          else pages env rest (snd (page env idx st)))"
proof -
  assume a: "first_success env (nat (n_retries env)) (length (sent st)) (v_token st)
     = Some (k, reviews, cnt, tok)"
  have p: "fst (page env idx st) = (if cnt < 10 \<or> tok = [] then Break else Continue)"
    by (rule page_success(1)[OF a])
  obtain sg st' where q: "page env idx st = (sg, st')" by (cases "page env idx st")
  with p have "sg = (if cnt < 10 \<or> tok = [] then Break else Continue)" by simp
  then have "pages env (idx # rest) st
       = (if cnt < 10 \<or> tok = [] then (None, snd (page env idx st))
          else pages env rest (snd (page env idx st)))"
    by (simp add: q)
  with p show ?thesis by simp
qed

theorem pagination_stops_on_short_count_or_empty_token_witness:
  "fst (page steady 0 (initial ''T0'' empty_memory)) = Continue
   \<and> fst (page final 0 (initial ''T0'' empty_memory)) = Break
   \<and> pages final [0, 1, 2] (initial ''T0'' empty_memory)
       = (None, snd (page final 0 (initial ''T0'' empty_memory)))"
proof -
  have f: "first_success steady (nat (n_retries steady))
      (length (sent (initial ''T0'' empty_memory))) (v_token (initial ''T0'' empty_memory))
      = Some (0, [None], 25, ''T1'')"
    by (simp add: initial_def steady_first)
  have g: "first_success final (nat (n_retries final))
      (length (sent (initial ''T0'' empty_memory))) (v_token (initial ''T0'' empty_memory))
      = Some (0, [None], 7, [])"
    by (simp add: initial_def final_first)
  show ?thesis
    using pagination_stops_on_short_count_or_empty_token[OF f, of 0 "[]"]
      pagination_stops_on_short_count_or_empty_token[OF g, of 0 "[1, 2]"]
    by simp
qed

text \<open>
  Claim C5 says that \<open>ceil(N/10)\<close> pages are tried unless a page reports fewer than
  ten reviews or an empty token. For \<open>N = 30\<close> three pages are planned; when no request
  of the first page returns, neither condition can be tested: the loop is left by
  \<open>UnboundLocalError\<close> after the three attempts of page 0, and no other page is tried.
\<close>

theorem first_page_failure_ends_the_loop:
  "\<lceil>(of_int 30 :: rat) / 10\<rceil> = 3
   \<and> v_i (snd (scrape_reviews down [''place''] [''0x1:0x2''] 30 ''T0'' empty_memory)) = Some 0
   \<and> sent (snd (scrape_reviews down [''place''] [''0x1:0x2''] 30 ''T0'' empty_memory))
       = [''T0'', ''T0'', ''T0'']
   \<and> v_review_count (snd (scrape_reviews down [''place''] [''0x1:0x2''] 30 ''T0''
        empty_memory)) = None"
  by (simp add: down_run scrape_reviews_def down_def service_def initial_def page_def
      get_api_response_def eval_nat_numeral upt_rec)

text \<open>
  Claim C10 says that every record has an error list of its own. The copy of the
  default record is shallow, so every record refers to the list of the default
  record. The first call parses a node on which nothing fails: the list of its record
  is empty. The second call parses a missing node and appends ten descriptions; they
  are in the list of the first record.
\<close>

theorem errors_list_shared_between_records:
  "fst first_parse = Inr first_record
   \<and> fst second_parse = Inr second_record
   \<and> errors second_record = errors first_record
   \<and> heap (snd first_parse) (errors first_record) = []
   \<and> length (heap (snd second_parse) (errors first_record)) = 10"
proof -
  have w: "example_writes_succeed steady"
    by (simp add: steady_def service_written)
  have d: "review_default_result steady = missing_result 0"
    by (simp add: steady_def service_fields)
  have g: "assigned (Some good_review) (missing_result 0)
      = (missing_result 0)\<lparr>review_id := Some ''abc'', rating := Some 4, rating_max := Some 5,
          relative_date := Some ''2 days ago'', user_name := Some ''Ann''\<rparr>"
    by (simp add: assigned_def extractors_def good_review_def
        extract_text_def extract_rating_def rating_of_label_def
        extract_other_ratings_def extract_relative_date_def extract_user_name_def
        extract_user_data_def extract_review_id_def extract_likes_def extract_response_def
        extract_trip_type_travel_group_def find_class_def find_has_attr_def find_attr_def
        class_matches_def has_attr_def is_space_def number_eval get_text_def)
  have a: "fst first_parse = Inr first_record"
    by (simp add: first_parse_def parse_review_parts(1)[OF w] d, simp only: g,
        simp add: first_record_def missing_result_def)
  have b: "fst second_parse = Inr second_record"
    by (simp add: second_parse_def parse_review_parts(1)[OF w] d assigned_None
        second_record_def)
  have c: "errors second_record = errors first_record" "errors first_record = 0"
    by (simp_all add: first_record_def second_record_def missing_result_def)
  have e: "heap (snd first_parse) 0 = []"
    by (simp add: first_parse_def parse_review_parts(2)[OF w] d failures_good
        empty_memory_def)
  have f: "length (heap (snd second_parse) 0) = 10"
    using e
    by (simp add: second_parse_def parse_review_parts(2)[OF w] d failures_None
        missing_result_def)
  from a b c e f show ?thesis by simp
qed

end
